theory Spec2Isabelle
  imports Main "HOL-Library.Sublist"
begin

section \<open>Connection resolution of the OpenMDAO \<open>Problem\<close> class\<close>

text \<open>
  This theory embeds the connection handling of \<^verbatim>\<open>openmdao/core/problem.py\<close>:
  the metadata extractor \<^verbatim>\<open>make_var_metadata\<close>, the validators
  \<^verbatim>\<open>check_types_match\<close>, \<^verbatim>\<open>check_shapes_match\<close> and \<^verbatim>\<open>check_connections\<close>,
  the connection part of \<^verbatim>\<open>Problem.setup\<close> and \<^verbatim>\<open>assign_parameters\<close>.

  Conventions of the embedding.
  \<^item> A Python \<^verbatim>\<open>dict\<close> is an association list; the order of the list is the
    iteration order of the dictionary, and a well-formed dictionary has distinct keys.
  \<^item> An exception is a value of type \<open>error\<close>; a function that may raise returns
    \<open>error + 'a\<close>, with \<open>Inl\<close> for the exception.
  \<^item> \<^verbatim>\<open>map\<close> and \<^verbatim>\<open>zip\<close> are the lazy iterators of Python 3, so the metadata of
    a connection is built only when the loop of \<^verbatim>\<open>check_connections\<close> reaches it.
  \<^item> A character is a code point below 256.
\<close>

subsection \<open>Dictionaries\<close>

type_synonym ('k, 'v) dict = "('k \<times> 'v) list"

definition dict_keys :: "('k, 'v) dict \<Rightarrow> 'k list" where
  "dict_keys d = map fst d"

definition dict_values :: "('k, 'v) dict \<Rightarrow> 'v list" where
  "dict_values d = map snd d"

definition dict_items :: "('k, 'v) dict \<Rightarrow> ('k \<times> 'v) list" where
  "dict_items d = d"

text \<open>\<^verbatim>\<open>d.get(k)\<close>: the value of the key, or Python's \<^verbatim>\<open>None\<close>.\<close>

definition dict_get :: "('k, 'v) dict \<Rightarrow> 'k \<Rightarrow> 'v option" where
  "dict_get d k = map_of d k"

text \<open>\<^verbatim>\<open>k in d\<close>.\<close>

definition dict_contains :: "'k \<Rightarrow> ('k, 'v) dict \<Rightarrow> bool" where
  "dict_contains k d = (k \<in> set (dict_keys d))"

text \<open>\<^verbatim>\<open>d[k] = v\<close>: an existing key keeps its place, a new key goes last.\<close>

fun dict_setitem :: "('k, 'v) dict \<Rightarrow> 'k \<Rightarrow> 'v \<Rightarrow> ('k, 'v) dict" where
  "dict_setitem [] k v = [(k, v)]"
| "dict_setitem ((k', v') # d) k v =
     (if k' = k then (k, v) # d else (k', v') # dict_setitem d k v)"

text \<open>\<^verbatim>\<open>d.update(e)\<close>: every item of \<open>e\<close> is stored into \<open>d\<close>, in the order of \<open>e\<close>.\<close>

definition dict_update :: "('k, 'v) dict \<Rightarrow> ('k, 'v) dict \<Rightarrow> ('k, 'v) dict" where
  "dict_update d e = foldl (\<lambda>acc (k, v). dict_setitem acc k v) d (dict_items e)"

subsection \<open>Exceptions\<close>

datatype error =
    ConnectError string
  | RuntimeError string
  | TypeError
  | KeyError string
  | AttributeError

text \<open>\<^verbatim>\<open>d[k]\<close> on a dictionary keyed by strings.\<close>

definition dict_getitem :: "(string, 'v) dict \<Rightarrow> string \<Rightarrow> error + 'v" where
  "dict_getitem d k = (case map_of d k of None \<Rightarrow> Inl (KeyError k) | Some v \<Rightarrow> Inr v)"

subsection \<open>Strings: \<^verbatim>\<open>split\<close>, \<^verbatim>\<open>join\<close>, \<^verbatim>\<open>str\<close> and \<^verbatim>\<open>repr\<close>\<close>

text \<open>\<^verbatim>\<open>s.split(sep)\<close> for a separator of one character: every occurrence splits, and
  the empty string gives one empty segment.\<close>

fun py_split :: "char \<Rightarrow> string \<Rightarrow> string list" where
  "py_split sep [] = [[]]"
| "py_split sep (c # cs) =
     (if c = sep then [] # py_split sep cs
      else (case py_split sep cs of
              [] \<Rightarrow> [[c]]
            | w # ws \<Rightarrow> (c # w) # ws))"

text \<open>\<^verbatim>\<open>sep.join(parts)\<close>.\<close>

fun py_join :: "string \<Rightarrow> string list \<Rightarrow> string" where
  "py_join sep [] = []"
| "py_join sep [x] = x"
| "py_join sep (x # y # ys) = x @ sep @ py_join sep (y # ys)"

definition apostrophe :: string where
  "apostrophe = [CHR 0x27]"

definition digit_chars :: string where
  "digit_chars = ''0123456789abcdef''"

text \<open>\<^verbatim>\<open>str(n)\<close> for an integer: decimal digits, with a sign for a negative number.\<close>

function str_nat :: "nat \<Rightarrow> string" where
  "str_nat n =
     (if n < 10 then [digit_chars ! n]
      else str_nat (n div 10) @ [digit_chars ! (n mod 10)])"
  by pat_completeness auto
termination
  by (relation "measure (\<lambda>n. n)") auto

declare str_nat.simps [simp del]

definition str_int :: "int \<Rightarrow> string" where
  "str_int i = (if i < 0 then ''-'' @ str_nat (nat (- i)) else str_nat (nat i))"

text \<open>\<^verbatim>\<open>repr(s)\<close> for a string, as \<^verbatim>\<open>str(list)\<close> prints each element: quoted with
  apostrophes unless the string holds an apostrophe and no double quote; the quote and the
  backslash are escaped, tab, newline and carriage return have their letters, and every
  other non-printable character is written \<^verbatim>\<open>\xhh\<close>.\<close>

definition repr_quote :: "string \<Rightarrow> char" where
  "repr_quote s =
     (if CHR 0x27 \<in> set s \<and> CHR 0x22 \<notin> set s then CHR 0x22 else CHR 0x27)"

definition printable :: "char \<Rightarrow> bool" where
  "printable c =
     (let n = (of_char c :: nat)
      in (32 \<le> n \<and> n < 127) \<or> (161 \<le> n \<and> n \<noteq> 173))"

definition repr_char :: "char \<Rightarrow> char \<Rightarrow> string" where
  "repr_char q c =
     (if c = q \<or> c = CHR 0x5C then [CHR 0x5C, c]
      else if c = CHR 0x09 then [CHR 0x5C, CHR ''t'']
      else if c = CHR 0x0A then [CHR 0x5C, CHR ''n'']
      else if c = CHR 0x0D then [CHR 0x5C, CHR ''r'']
      else if printable c then [c]
      else [CHR 0x5C, CHR ''x'',
            digit_chars ! ((of_char c :: nat) div 16),
            digit_chars ! ((of_char c :: nat) mod 16)])"

definition repr_str :: "string \<Rightarrow> string" where
  "repr_str s = (let q = repr_quote s in [q] @ concat (map (repr_char q) s) @ [q])"

definition str_list :: "string list \<Rightarrow> string" where
  "str_list xs = ''['' @ py_join '', '' (map repr_str xs) @ '']''"

subsection \<open>Values, shapes and their types\<close>

text \<open>The classes that \<^verbatim>\<open>type(x)\<close> can return for the objects of the model.\<close>

datatype pytype = T_NoneType | T_int | T_float | T_str | T_tuple | T_list | T_ndarray

text \<open>The content of a variable, the \<^verbatim>\<open>'val'\<close> entry of its descriptor. The code reads
  its class and, for the second shape check, its \<^verbatim>\<open>shape\<close> attribute only; of the
  classes here only a numpy array has that attribute, and it is the tuple of the array's
  dimensions.\<close>

datatype pyval =
    NoneVal
  | IntVal int
  | FloatVal
  | StrVal string
  | NdArray "nat list"

text \<open>The \<^verbatim>\<open>'shape'\<close> entry of a descriptor: \<^verbatim>\<open>None\<close> (also when the key is missing),
  a tuple of integers, a list of integers or one integer.\<close>

datatype pyshape =
    ShapeNone
  | ShapeInt int
  | ShapeTuple "int list"
  | ShapeList "int list"

fun type_of_val :: "pyval \<Rightarrow> pytype" where
  "type_of_val NoneVal = T_NoneType"
| "type_of_val (IntVal i) = T_int"
| "type_of_val FloatVal = T_float"
| "type_of_val (StrVal s) = T_str"
| "type_of_val (NdArray dims) = T_ndarray"

fun type_of_shape :: "pyshape \<Rightarrow> pytype" where
  "type_of_shape ShapeNone = T_NoneType"
| "type_of_shape (ShapeInt i) = T_int"
| "type_of_shape (ShapeTuple xs) = T_tuple"
| "type_of_shape (ShapeList xs) = T_list"

text \<open>\<^verbatim>\<open>v.shape\<close>: \<open>None\<close> stands for the \<^verbatim>\<open>AttributeError\<close> of an object without
  the attribute.\<close>

fun attr_shape :: "pyval \<Rightarrow> pyshape option" where
  "attr_shape (NdArray dims) = Some (ShapeTuple (map int dims))"
| "attr_shape v = None"

fun type_name :: "pytype \<Rightarrow> string" where
  "type_name T_NoneType = ''NoneType''"
| "type_name T_int = ''int''"
| "type_name T_float = ''float''"
| "type_name T_str = ''str''"
| "type_name T_tuple = ''tuple''"
| "type_name T_list = ''list''"
| "type_name T_ndarray = ''numpy.ndarray''"

text \<open>\<^verbatim>\<open>str(t)\<close> for a class, as \<^verbatim>\<open>format\<close> prints \<^verbatim>\<open>{src.type}\<close>.\<close>

definition str_type :: "pytype \<Rightarrow> string" where
  "str_type t = ''<class '' @ apostrophe @ type_name t @ apostrophe @ ''>''"

definition str_tuple :: "int list \<Rightarrow> string" where
  "str_tuple xs =
     (case xs of
        [] \<Rightarrow> ''()''
      | [x] \<Rightarrow> ''('' @ str_int x @ '',)''
      | _ \<Rightarrow> ''('' @ py_join '', '' (map str_int xs) @ '')'')"

fun str_shape :: "pyshape \<Rightarrow> string" where
  "str_shape ShapeNone = ''None''"
| "str_shape (ShapeInt i) = str_int i"
| "str_shape (ShapeTuple xs) = str_tuple xs"
| "str_shape (ShapeList xs) = ''['' @ py_join '', '' (map str_int xs) @ '']''"

subsection \<open>Variable metadata\<close>

text \<open>\<^verbatim>\<open>VarMetadata = namedtuple('VarMetadata', 'path val type shape')\<close>\<close>

record VarMetadata =
  path :: string
  val :: pyval
  type :: pytype
  shape :: pyshape

text \<open>A descriptor is the dictionary of one variable. The code reads two of its keys:
  \<^verbatim>\<open>metadata['val']\<close>, which raises \<^verbatim>\<open>KeyError\<close> when the key is missing, and
  \<^verbatim>\<open>metadata.get('shape')\<close>, which is \<^verbatim>\<open>None\<close> then.\<close>

record descriptor =
  val_entry :: "pyval option"
  shape_entry :: "pyshape option"

text \<open>The second argument is the result of \<^verbatim>\<open>table.get(path)\<close>: Python's \<^verbatim>\<open>None\<close>
  for a path the table does not have, and subscripting \<^verbatim>\<open>None\<close> raises
  \<^verbatim>\<open>TypeError\<close>.\<close>

fun make_var_metadata :: "string \<Rightarrow> descriptor option \<Rightarrow> error + VarMetadata" where
  "make_var_metadata p None = Inl TypeError"
| "make_var_metadata p (Some metadata) =
     (case val_entry metadata of
        None \<Rightarrow> Inl (KeyError ''val'')
      | Some v \<Rightarrow>
          Inr \<lparr>path = p, val = v, type = type_of_val v,
               shape = (case shape_entry metadata of None \<Rightarrow> ShapeNone | Some s \<Rightarrow> s)\<rparr>)"

subsection \<open>The type check and the shape checks\<close>

definition type_msg :: "VarMetadata \<Rightarrow> VarMetadata \<Rightarrow> string" where
  "type_msg src target =
     ''Type '' @ apostrophe @ path src @ '' of source '' @ apostrophe @ str_type (type src)
     @ apostrophe @ '' must be the same as type '' @ apostrophe @ path target
     @ apostrophe @ '' of target '' @ apostrophe @ str_type (type target) @ apostrophe"

definition check_types_match :: "VarMetadata \<Rightarrow> VarMetadata \<Rightarrow> error + unit" where
  "check_types_match src target =
     (if type src \<noteq> type target then Inl (ConnectError (type_msg src target))
      else Inr ())"

definition shape_msg :: "VarMetadata \<Rightarrow> VarMetadata \<Rightarrow> string" where
  "shape_msg src target =
     ''Shape '' @ apostrophe @ str_shape (shape src) @ apostrophe @ '' of the source ''
     @ apostrophe @ path src @ apostrophe @ '' must match the shape '' @ apostrophe
     @ str_shape (shape target) @ apostrophe @ '' of the target '' @ apostrophe
     @ path target @ apostrophe"

definition dunder_check_shapes_match :: "VarMetadata \<Rightarrow> VarMetadata \<Rightarrow> error + unit" where
  "dunder_check_shapes_match src target =
     (if shape src \<noteq> shape target then Inl (ConnectError (shape_msg src target))
      else Inr ())"

definition val_shape_msg :: "pyshape \<Rightarrow> VarMetadata \<Rightarrow> VarMetadata \<Rightarrow> string" where
  "val_shape_msg vs src target =
     ''Shape of the initial value '' @ apostrophe @ str_shape vs @ apostrophe
     @ '' of source '' @ apostrophe @ path src @ apostrophe @ '' must match the shape ''
     @ apostrophe @ str_shape (shape target) @ apostrophe @ '' of the target ''
     @ apostrophe @ path target @ apostrophe"

definition dunder_check_val_and_shape_match :: "VarMetadata \<Rightarrow> VarMetadata \<Rightarrow> error + unit" where
  "dunder_check_val_and_shape_match src target =
     (case attr_shape (val src) of
        None \<Rightarrow> Inl AttributeError
      | Some vs \<Rightarrow>
          if vs \<noteq> shape target then Inl (ConnectError (val_shape_msg vs src target))
          else Inr ())"

text \<open>The dispatch table \<^verbatim>\<open>__shape_checks\<close>, keyed by the classes of the two shapes.\<close>

definition dunder_shape_checks ::
  "(pytype \<times> pytype, VarMetadata \<Rightarrow> VarMetadata \<Rightarrow> error + unit) dict" where
  "dunder_shape_checks =
     [((T_tuple, T_tuple), dunder_check_shapes_match),
      ((T_NoneType, T_tuple), dunder_check_val_and_shape_match)]"

text \<open>\<^verbatim>\<open>__shape_checks.get(key, lambda x, y: None)\<close>, then the call.\<close>

definition check_shapes_match :: "VarMetadata \<Rightarrow> VarMetadata \<Rightarrow> error + unit" where
  "check_shapes_match source target =
     (let source_shape_type = type_of_shape (shape source);
          target_shape_type = type_of_shape (shape target);
          check_shape_function =
            (case dict_get dunder_shape_checks (source_shape_type, target_shape_type) of
               None \<Rightarrow> (\<lambda>x y. Inr ())
             | Some f \<Rightarrow> f)
      in check_shape_function source target)"

subsection \<open>\<^verbatim>\<open>check_connections\<close>\<close>

text \<open>The loop over \<^verbatim>\<open>zip(sources, targets)\<close>. Both are lazy maps over the values and
  the keys of the connections, so each round builds the metadata of the source, then that
  of the target, then runs the two checks; the first exception ends the loop.\<close>

fun check_connections_loop ::
  "(string \<times> string) list \<Rightarrow> (string, descriptor) dict \<Rightarrow> (string, descriptor) dict
     \<Rightarrow> error + unit" where
  "check_connections_loop [] params unknowns = Inr ()"
| "check_connections_loop ((tgt, src) # rest) params unknowns =
     (case make_var_metadata src (dict_get unknowns src) of
        Inl e \<Rightarrow> Inl e
      | Inr source \<Rightarrow>
          (case make_var_metadata tgt (dict_get params tgt) of
             Inl e \<Rightarrow> Inl e
           | Inr target \<Rightarrow>
               (case check_types_match source target of
                  Inl e \<Rightarrow> Inl e
                | Inr u \<Rightarrow>
                    (case check_shapes_match source target of
                       Inl e \<Rightarrow> Inl e
                     | Inr u' \<Rightarrow> check_connections_loop rest params unknowns))))"

definition check_connections ::
  "(string, string) dict \<Rightarrow> (string, descriptor) dict \<Rightarrow> (string, descriptor) dict
     \<Rightarrow> error + unit" where
  "check_connections connections params unknowns =
     check_connections_loop (dict_items connections) params unknowns"

subsection \<open>\<^verbatim>\<open>assign_parameters\<close>\<close>

text \<open>The inner loop over \<^verbatim>\<open>zip(par.split(':'), unk.split(':'))\<close> with its
  \<^verbatim>\<open>break\<close>; the second argument is \<^verbatim>\<open>common_parts\<close> so far.\<close>

fun common_parts_loop :: "(string \<times> string) list \<Rightarrow> string list \<Rightarrow> string list" where
  "common_parts_loop [] common_parts = common_parts"
| "common_parts_loop ((ppart, upart) # rest) common_parts =
     (if ppart = upart then common_parts_loop rest (common_parts @ [ppart])
      else common_parts)"

definition owner_of :: "string \<Rightarrow> string \<Rightarrow> string" where
  "owner_of par unk =
     py_join '':''
       (common_parts_loop (zip (py_split CHR '':'' par) (py_split CHR '':'' unk)) [])"

text \<open>\<^verbatim>\<open>param_owners.setdefault(owner, []).append(par)\<close>\<close>

definition setdefault_append ::
  "(string, string list) dict \<Rightarrow> string \<Rightarrow> string \<Rightarrow> (string, string list) dict" where
  "setdefault_append param_owners owner par =
     (case dict_get param_owners owner of
        None \<Rightarrow> dict_setitem param_owners owner [par]
      | Some pars \<Rightarrow> dict_setitem param_owners owner (pars @ [par]))"

definition assign_parameters :: "(string, string) dict \<Rightarrow> (string, string list) dict" where
  "assign_parameters connections =
     foldl (\<lambda>param_owners (par, unk). setdefault_append param_owners (owner_of par unk) par)
       [] (dict_items connections)"

subsection \<open>The connection part of \<^verbatim>\<open>Problem.setup\<close>\<close>

definition conflict_msg :: "string \<Rightarrow> string \<Rightarrow> string \<Rightarrow> string" where
  "conflict_msg tgt explicit_src implicit_src =
     tgt @ '' is explicitly connected to '' @ explicit_src
     @ '' but implicitly connected to '' @ implicit_src"

text \<open>The loop that checks for conflicting explicit and implicit connections. The first
  argument is what is left of \<^verbatim>\<open>connections.items()\<close>.\<close>

fun conflict_loop ::
  "(string \<times> string) list \<Rightarrow> (string, string) dict \<Rightarrow> (string, string) dict
     \<Rightarrow> error + unit" where
  "conflict_loop [] connections implicit_conns = Inr ()"
| "conflict_loop ((tgt, src) # rest) connections implicit_conns =
     (if dict_contains tgt implicit_conns then
        (case dict_getitem connections tgt of
           Inl e \<Rightarrow> Inl e
         | Inr explicit_src \<Rightarrow>
             (case dict_getitem implicit_conns tgt of
                Inl e \<Rightarrow> Inl e
              | Inr implicit_src \<Rightarrow>
                  Inl (RuntimeError (conflict_msg tgt explicit_src implicit_src))))
      else conflict_loop rest connections implicit_conns)"

text \<open>Lines 115 to 123 of \<^verbatim>\<open>setup\<close>: the conflict check, then
  \<^verbatim>\<open>connections.update(implicit_conns)\<close>. The specification calls this step
  \<^verbatim>\<open>reconcile\<close>.\<close>

definition reconcile ::
  "(string, string) dict \<Rightarrow> (string, string) dict \<Rightarrow> error + (string, string) dict" where
  "reconcile connections implicit_conns =
     (case conflict_loop (dict_items connections) connections implicit_conns of
        Inl e \<Rightarrow> Inl e
      | Inr u \<Rightarrow> Inr (dict_update connections implicit_conns))"

definition hanging_msg :: "string list \<Rightarrow> string" where
  "hanging_msg hanging_params =
     ''Parameters '' @ str_list hanging_params @ '' have no associated unknowns.''"

text \<open>The parameters that are not the target of a connection, in the order of the
  parameter table.\<close>

definition hanging_params_of ::
  "(string, 'd) dict \<Rightarrow> (string, string) dict \<Rightarrow> string list" where
  "hanging_params_of params_dict connections =
     filter (\<lambda>p. p \<notin> set (dict_keys connections)) (dict_keys params_dict)"

text \<open>Lines 127 to 135 of \<^verbatim>\<open>setup\<close>; the specification calls this step
  \<^verbatim>\<open>check_complete\<close>.\<close>

definition check_complete ::
  "(string, 'd) dict \<Rightarrow> (string, string) dict \<Rightarrow> error + unit" where
  "check_complete params_dict connections =
     (let hanging_params = hanging_params_of params_dict connections
      in if hanging_params \<noteq> [] then Inl (RuntimeError (hanging_msg hanging_params))
         else Inr ())"

text \<open>\<^verbatim>\<open>setup\<close> from the results of the tree traversals (the parameter and the unknown
  table, the explicit and the implicit connections) to the arguments it hands to
  \<^verbatim>\<open>_setup_vectors\<close>: the owners of the parameters and the connections.\<close>

definition Problem_setup ::
  "(string, string) dict \<Rightarrow> (string, string) dict \<Rightarrow> (string, descriptor) dict
     \<Rightarrow> (string, descriptor) dict \<Rightarrow> error + ((string, string list) dict \<times> (string, string) dict)"
  where
  "Problem_setup explicit_conns implicit_conns params_dict unknowns_dict =
     (case reconcile explicit_conns implicit_conns of
        Inl e \<Rightarrow> Inl e
      | Inr connections \<Rightarrow>
          (case check_connections connections params_dict unknowns_dict of
             Inl e \<Rightarrow> Inl e
           | Inr u \<Rightarrow>
               (case check_complete params_dict connections of
                  Inl e \<Rightarrow> Inl e
                | Inr u' \<Rightarrow> Inr (assign_parameters connections, connections))))"

text \<open>The first key of the explicit connections, in iteration order, that is also a key
  of the implicit connections: the target at which the conflict loop raises.\<close>

definition first_conflict :: "(string, string) dict \<Rightarrow> (string, string) dict \<Rightarrow> string option" where
  "first_conflict connections implicit_conns =
     find (\<lambda>tgt. dict_contains tgt implicit_conns) (dict_keys connections)"

text \<open>The targets that a connection dictionary gives to one owner, in iteration order.\<close>

definition targets_of :: "(string, string) dict \<Rightarrow> string \<Rightarrow> string list" where
  "targets_of connections owner =
     map fst (filter (\<lambda>(par, unk). owner_of par unk = owner) (dict_items connections))"

section \<open>Properties\<close>

subsection \<open>Dictionaries and the conflict loop\<close>

lemma dict_contains_get: "dict_contains k d \<longleftrightarrow> (\<exists>v. dict_get d k = Some v)"
proof -
  have "k \<in> fst ` set d \<longleftrightarrow> map_of d k \<noteq> None"
    by (simp add: map_of_eq_None_iff)
  then show ?thesis
    by (simp add: dict_contains_def dict_keys_def dict_get_def)
qed

lemma dict_getitem_Some: "dict_get d k = Some v \<Longrightarrow> dict_getitem d k = Inr v"
  by (simp add: dict_getitem_def dict_get_def)

lemma conflict_loop_none:
  "find (\<lambda>tgt. dict_contains tgt implicit_conns) (map fst items) = None
   \<Longrightarrow> conflict_loop items connections implicit_conns = Inr ()"
  by (induction items) (auto split: if_splits)

lemma conflict_loop_some:
  "find (\<lambda>tgt. dict_contains tgt implicit_conns) (map fst items) = Some t
   \<Longrightarrow> dict_get connections t = Some e \<Longrightarrow> dict_get implicit_conns t = Some i
   \<Longrightarrow> conflict_loop items connections implicit_conns = Inl (RuntimeError (conflict_msg t e i))"
  by (induction items) (auto split: if_splits simp: dict_getitem_Some)

lemma first_conflict_SomeD:
  assumes "first_conflict connections implicit_conns = Some t"
  shows "\<exists>e i. dict_get connections t = Some e \<and> dict_get implicit_conns t = Some i"
proof -
  from assms have "dict_contains t implicit_conns" "t \<in> set (dict_keys connections)"
    by (auto simp: first_conflict_def find_Some_iff)
  then show ?thesis
    by (auto simp: dict_contains_get[symmetric]) (simp add: dict_contains_def)
qed

lemma first_conflict_None_iff:
  "first_conflict connections implicit_conns = None
   \<longleftrightarrow> set (dict_keys connections) \<inter> set (dict_keys implicit_conns) = {}"
  by (auto simp: first_conflict_def find_None_iff dict_contains_def)

lemma reconcile_no_conflict:
  "first_conflict connections implicit_conns = None
   \<Longrightarrow> reconcile connections implicit_conns = Inr (dict_update connections implicit_conns)"
  by (simp add: reconcile_def first_conflict_def dict_keys_def dict_items_def conflict_loop_none)

lemma reconcile_conflict:
  "first_conflict connections implicit_conns = Some t
   \<Longrightarrow> dict_get connections t = Some e \<Longrightarrow> dict_get implicit_conns t = Some i
   \<Longrightarrow> reconcile connections implicit_conns = Inl (RuntimeError (conflict_msg t e i))"
  by (simp add: reconcile_def first_conflict_def dict_keys_def dict_items_def conflict_loop_some)

lemma shared_key_first_conflict:
  assumes "dict_get connections t = Some e" "dict_get implicit_conns t = Some i"
  shows "\<exists>t'. first_conflict connections implicit_conns = Some t'"
proof -
  have "t \<in> set (dict_keys connections)" "t \<in> set (dict_keys implicit_conns)"
    using assms dict_contains_get[of t connections] dict_contains_get[of t implicit_conns]
    by (auto simp: dict_contains_def)
  then have "first_conflict connections implicit_conns \<noteq> None"
    by (auto simp: first_conflict_None_iff)
  then show ?thesis by auto
qed

lemma conflict_msg_names:
  "sublist t (conflict_msg t e i)" "sublist e (conflict_msg t e i)" "sublist i (conflict_msg t e i)"
proof -
  show "sublist t (conflict_msg t e i)"
    unfolding conflict_msg_def by (rule sublist_append_rightI)
  show "sublist e (conflict_msg t e i)"
    unfolding conflict_msg_def
    using sublist_appendI[of e "t @ '' is explicitly connected to ''"
        "'' but implicitly connected to '' @ i"] by simp
  show "sublist i (conflict_msg t e i)"
    unfolding conflict_msg_def
    using sublist_appendI[of i "t @ '' is explicitly connected to '' @ e
        @ '' but implicitly connected to ''" "[]"] by simp
qed

lemma dict_setitem_new:
  "k \<notin> set (dict_keys d) \<Longrightarrow> dict_setitem d k v = d @ [(k, v)]"
  by (induction d) (auto simp: dict_keys_def)

lemma foldl_setitem_append:
  "distinct (map fst e) \<Longrightarrow> set (map fst d) \<inter> set (map fst e) = {}
   \<Longrightarrow> foldl (\<lambda>acc (k, v). dict_setitem acc k v) d e = d @ e"
proof (induction e arbitrary: d)
  case Nil
  then show ?case by simp
next
  case (Cons x e)
  obtain k v where x: "x = (k, v)" by (cases x)
  from Cons.prems have knew: "k \<notin> set (dict_keys d)"
    by (auto simp: x dict_keys_def)
  have "foldl (\<lambda>acc (k, v). dict_setitem acc k v) (d @ [(k, v)]) e = (d @ [(k, v)]) @ e"
    using Cons.prems by (intro Cons.IH) (auto simp: x)
  then show ?case
    by (simp add: x dict_setitem_new[OF knew])
qed

lemma dict_update_disjoint:
  "distinct (dict_keys e) \<Longrightarrow> set (dict_keys d) \<inter> set (dict_keys e) = {}
   \<Longrightarrow> dict_update d e = d @ e"
  by (simp add: dict_update_def dict_items_def dict_keys_def foldl_setitem_append)

subsection \<open>Reconciliation of explicit and implicit connections\<close>

text \<open>Claim C7. When the explicit and the implicit connections have no target in common,
  the reconciliation of \<^verbatim>\<open>setup\<close> succeeds and the merged dictionary is exactly the union
  of the two: it has the items of both and no other, every target keeps its source, and
  the explicit connections come first in the iteration order.\<close>

theorem reconcile_disjoint_is_union:
  assumes "distinct (dict_keys explicit_conns)"
    and "distinct (dict_keys implicit_conns)"
    and "set (dict_keys explicit_conns) \<inter> set (dict_keys implicit_conns) = {}"
  shows "\<exists>merged. reconcile explicit_conns implicit_conns = Inr merged
           \<and> merged = explicit_conns @ implicit_conns
           \<and> set (dict_items merged) = set (dict_items explicit_conns) \<union> set (dict_items implicit_conns)
           \<and> distinct (dict_keys merged)
           \<and> (\<forall>k. dict_get merged k =
                 (case dict_get explicit_conns k of
                    Some s \<Rightarrow> Some s
                  | None \<Rightarrow> dict_get implicit_conns k))"
proof -
  from assms(3) have "first_conflict explicit_conns implicit_conns = None"
    by (simp add: first_conflict_None_iff)
  then have r: "reconcile explicit_conns implicit_conns = Inr (explicit_conns @ implicit_conns)"
    using assms by (simp add: reconcile_no_conflict dict_update_disjoint)
  have d: "distinct (dict_keys (explicit_conns @ implicit_conns))"
    using assms by (simp add: dict_keys_def)
  have g: "\<forall>k. dict_get (explicit_conns @ implicit_conns) k =
             (case dict_get explicit_conns k of
                Some s \<Rightarrow> Some s
              | None \<Rightarrow> dict_get implicit_conns k)"
    by (simp add: dict_get_def map_add_def split: option.split)
  show ?thesis
    using r d g by (simp add: dict_items_def)
qed

theorem reconcile_disjoint_is_union_witness:
  "distinct (dict_keys [(''G:C1:a'', ''G:C2:b'')])
   \<and> distinct (dict_keys [(''G:C3:c'', ''G:C2:b'')])
   \<and> set (dict_keys [(''G:C1:a'', ''G:C2:b'')]) \<inter> set (dict_keys [(''G:C3:c'', ''G:C2:b'')]) = {}
   \<and> reconcile [(''G:C1:a'', ''G:C2:b'')] [(''G:C3:c'', ''G:C2:b'')]
       = Inr [(''G:C1:a'', ''G:C2:b''), (''G:C3:c'', ''G:C2:b'')]"
proof -
  have h1: "distinct (dict_keys [(''G:C1:a'', ''G:C2:b'')])"
    by (simp add: dict_keys_def)
  have h2: "distinct (dict_keys [(''G:C3:c'', ''G:C2:b'')])"
    by (simp add: dict_keys_def)
  have h3: "set (dict_keys [(''G:C1:a'', ''G:C2:b'')]) \<inter> set (dict_keys [(''G:C3:c'', ''G:C2:b'')]) = {}"
    by (simp add: dict_keys_def)
  show ?thesis
    using h1 h2 h3 reconcile_disjoint_is_union [OF h1 h2 h3] by simp
qed

text \<open>Claim C1 fails as stated: one target, in both dictionaries with the same source,
  and \<^verbatim>\<open>setup\<close> raises.\<close>

theorem reconcile_same_source_counterexample:
  "dict_get [(''G:C1:a'', ''G:C2:b'')] ''G:C1:a'' = Some ''G:C2:b''
   \<and> dict_get [(''G:C1:a'', ''G:C2:b'')] ''G:C1:a'' = Some ''G:C2:b''
   \<and> reconcile [(''G:C1:a'', ''G:C2:b'')] [(''G:C1:a'', ''G:C2:b'')]
       = Inl (RuntimeError
           ''G:C1:a is explicitly connected to G:C2:b but implicitly connected to G:C2:b'')"
  by (simp add: dict_get_def reconcile_def dict_items_def dict_contains_def dict_keys_def
      dict_getitem_def conflict_msg_def)

text \<open>Claim C1, as the code has it. A target that is a key of both dictionaries makes
  the reconciliation fail with the conflict \<^verbatim>\<open>RuntimeError\<close>, also when both dictionaries
  give it the same source: the loop tests \<^verbatim>\<open>tgt in implicit_conns\<close> and never compares the
  sources. No merged dictionary is produced. When the target is the first shared key of
  the explicit connections, the message names it with its explicit and its implicit
  source: with the common source twice, when the two are the same.\<close>

theorem reconcile_shared_key_fails:
  assumes "dict_get explicit_conns t = Some s"
    and "dict_get implicit_conns t = Some s'"
  shows "(\<exists>t' e i. reconcile explicit_conns implicit_conns
             = Inl (RuntimeError (conflict_msg t' e i)))
         \<and> (first_conflict explicit_conns implicit_conns = Some t
              \<longrightarrow> reconcile explicit_conns implicit_conns
                    = Inl (RuntimeError (conflict_msg t s s')))"
proof -
  obtain t' where f: "first_conflict explicit_conns implicit_conns = Some t'"
    using shared_key_first_conflict[OF assms] by blast
  obtain e i where "dict_get explicit_conns t' = Some e" "dict_get implicit_conns t' = Some i"
    using first_conflict_SomeD[OF f] by blast
  then have "reconcile explicit_conns implicit_conns = Inl (RuntimeError (conflict_msg t' e i))"
    using f by (rule reconcile_conflict[rotated])
  moreover have "first_conflict explicit_conns implicit_conns = Some t
      \<longrightarrow> reconcile explicit_conns implicit_conns = Inl (RuntimeError (conflict_msg t s s'))"
    using assms by (simp add: reconcile_conflict)
  ultimately show ?thesis by blast
qed

theorem reconcile_shared_key_fails_witness:
  "dict_get [(''G:C1:a'', ''G:C2:b'')] ''G:C1:a'' = Some ''G:C2:b''
   \<and> first_conflict [(''G:C1:a'', ''G:C2:b'')] [(''G:C1:a'', ''G:C2:b'')] = Some ''G:C1:a''
   \<and> reconcile [(''G:C1:a'', ''G:C2:b'')] [(''G:C1:a'', ''G:C2:b'')]
       = Inl (RuntimeError (conflict_msg ''G:C1:a'' ''G:C2:b'' ''G:C2:b''))"
proof -
  have h: "dict_get [(''G:C1:a'', ''G:C2:b'')] ''G:C1:a'' = Some ''G:C2:b''"
    by (simp add: dict_get_def)
  have f: "first_conflict [(''G:C1:a'', ''G:C2:b'')] [(''G:C1:a'', ''G:C2:b'')] = Some ''G:C1:a''"
    by (simp add: first_conflict_def dict_contains_def dict_keys_def)
  show ?thesis
    using h f reconcile_shared_key_fails [OF h h] by simp
qed

text \<open>Claim C4 fails as stated: with two conflicting targets the message names the
  first one only; the second target and its two sources do not occur in it.\<close>

theorem reconcile_conflict_names_counterexample:
  "dict_get [(''A:x'', ''U:a''), (''B:y'', ''U:b'')] ''B:y'' = Some ''U:b''
   \<and> dict_get [(''A:x'', ''V:a''), (''B:y'', ''V:b'')] ''B:y'' = Some ''V:b''
   \<and> ''U:b'' \<noteq> ''V:b''
   \<and> reconcile [(''A:x'', ''U:a''), (''B:y'', ''U:b'')] [(''A:x'', ''V:a''), (''B:y'', ''V:b'')]
       = Inl (RuntimeError ''A:x is explicitly connected to U:a but implicitly connected to V:a'')
   \<and> \<not> sublist ''B:y'' ''A:x is explicitly connected to U:a but implicitly connected to V:a''
   \<and> \<not> sublist ''U:b'' ''A:x is explicitly connected to U:a but implicitly connected to V:a''
   \<and> \<not> sublist ''V:b'' ''A:x is explicitly connected to U:a but implicitly connected to V:a''"
proof -
  have "reconcile [(''A:x'', ''U:a''), (''B:y'', ''U:b'')] [(''A:x'', ''V:a''), (''B:y'', ''V:b'')]
       = Inl (RuntimeError ''A:x is explicitly connected to U:a but implicitly connected to V:a'')"
    by (simp add: reconcile_def dict_items_def dict_contains_def dict_keys_def
      dict_getitem_def conflict_msg_def)
  moreover have "\<not> sublist ''B:y'' ''A:x is explicitly connected to U:a but implicitly connected to V:a''"
    by code_simp
  moreover have "\<not> sublist ''U:b'' ''A:x is explicitly connected to U:a but implicitly connected to V:a''"
    by code_simp
  moreover have "\<not> sublist ''V:b'' ''A:x is explicitly connected to U:a but implicitly connected to V:a''"
    by code_simp
  ultimately show ?thesis by (simp add: dict_get_def)
qed

text \<open>Claim C4, as the code has it. A target with different sources in the two
  dictionaries makes the reconciliation fail with a \<^verbatim>\<open>RuntimeError\<close>. The loop raises at
  the first key of the explicit connections that is also an implicit target, so the
  message names that first shared target, its explicit source and its implicit source;
  when the target is the only shared key, it is the one the message names.\<close>

theorem reconcile_conflict_names_first:
  assumes "dict_get explicit_conns t = Some e"
    and "dict_get implicit_conns t = Some i"
    and "e \<noteq> i"
  shows "\<exists>t' e' i'. first_conflict explicit_conns implicit_conns = Some t'
           \<and> dict_get explicit_conns t' = Some e'
           \<and> dict_get implicit_conns t' = Some i'
           \<and> reconcile explicit_conns implicit_conns = Inl (RuntimeError (conflict_msg t' e' i'))
           \<and> sublist t' (conflict_msg t' e' i')
           \<and> sublist e' (conflict_msg t' e' i')
           \<and> sublist i' (conflict_msg t' e' i')
           \<and> (set (dict_keys explicit_conns) \<inter> set (dict_keys implicit_conns) = {t}
                \<longrightarrow> t' = t \<and> e' = e \<and> i' = i)"
proof -
  obtain t' where f: "first_conflict explicit_conns implicit_conns = Some t'"
    using shared_key_first_conflict[OF assms(1,2)] by blast
  obtain e' i' where g: "dict_get explicit_conns t' = Some e'" "dict_get implicit_conns t' = Some i'"
    using first_conflict_SomeD[OF f] by blast
  have r: "reconcile explicit_conns implicit_conns = Inl (RuntimeError (conflict_msg t' e' i'))"
    using f g by (rule reconcile_conflict)
  have m: "t' \<in> set (dict_keys explicit_conns) \<inter> set (dict_keys implicit_conns)"
    using f by (auto simp: first_conflict_def find_Some_iff dict_contains_def)
  have u: "set (dict_keys explicit_conns) \<inter> set (dict_keys implicit_conns) = {t}
                \<longrightarrow> t' = t \<and> e' = e \<and> i' = i"
  proof (intro impI)
    assume "set (dict_keys explicit_conns) \<inter> set (dict_keys implicit_conns) = {t}"
    with m have "t' = t" by simp
    then show "t' = t \<and> e' = e \<and> i' = i"
      using g assms by simp
  qed
  show ?thesis
    apply (rule exI[of _ t'], rule exI[of _ e'], rule exI[of _ i'])
    using f g r u by (simp add: conflict_msg_names)
qed

theorem reconcile_conflict_names_first_witness:
  "dict_get [(''A:x'', ''U:a''), (''B:y'', ''U:b'')] ''B:y'' = Some ''U:b''
   \<and> dict_get [(''B:y'', ''V:b'')] ''B:y'' = Some ''V:b''
   \<and> ''U:b'' \<noteq> ''V:b''
   \<and> set (dict_keys [(''A:x'', ''U:a''), (''B:y'', ''U:b'')]) \<inter> set (dict_keys [(''B:y'', ''V:b'')])
       = {''B:y''}
   \<and> reconcile [(''A:x'', ''U:a''), (''B:y'', ''U:b'')] [(''B:y'', ''V:b'')]
       = Inl (RuntimeError (conflict_msg ''B:y'' ''U:b'' ''V:b''))"
proof -
  have h1: "dict_get [(''A:x'', ''U:a''), (''B:y'', ''U:b'')] ''B:y'' = Some ''U:b''"
    by (simp add: dict_get_def)
  have h2: "dict_get [(''B:y'', ''V:b'')] ''B:y'' = Some ''V:b''"
    by (simp add: dict_get_def)
  have h3: "''U:b'' \<noteq> ''V:b''" by simp
  have s: "set (dict_keys [(''A:x'', ''U:a''), (''B:y'', ''U:b'')]) \<inter> set (dict_keys [(''B:y'', ''V:b'')])
       = {''B:y''}"
    by (simp add: dict_keys_def)
  show ?thesis
    using h1 h2 s reconcile_conflict_names_first [OF h1 h2 h3] by auto
qed

subsection \<open>The type check and the shape checks\<close>

lemma check_shapes_match_dispatch:
  "check_shapes_match s t =
     (if type_of_shape (shape s) = T_tuple \<and> type_of_shape (shape t) = T_tuple
        then dunder_check_shapes_match s t
      else if type_of_shape (shape s) = T_NoneType \<and> type_of_shape (shape t) = T_tuple
        then dunder_check_val_and_shape_match s t
      else Inr ())"
  by (simp add: check_shapes_match_def dunder_shape_checks_def dict_get_def Let_def)

lemma type_of_shape_tuple_iff: "type_of_shape x = T_tuple \<longleftrightarrow> (\<exists>a. x = ShapeTuple a)"
  by (cases x) simp_all

lemma type_of_shape_none_iff: "type_of_shape x = T_NoneType \<longleftrightarrow> x = ShapeNone"
  by (cases x) simp_all

lemma attr_shape_Some_iff: "attr_shape v = Some x \<longleftrightarrow> (\<exists>d. v = NdArray d \<and> x = ShapeTuple (map int d))"
  by (cases v) auto

lemma check_shapes_match_tuples:
  "shape s = ShapeTuple a \<Longrightarrow> shape t = ShapeTuple b \<Longrightarrow>
   check_shapes_match s t = (if a \<noteq> b then Inl (ConnectError (shape_msg s t)) else Inr ())"
  by (simp add: check_shapes_match_dispatch dunder_check_shapes_match_def)

lemma check_shapes_match_none_tuple:
  "shape s = ShapeNone \<Longrightarrow> shape t = ShapeTuple b \<Longrightarrow>
   check_shapes_match s t =
     (case val s of
        NdArray d \<Rightarrow>
          if map int d \<noteq> b
          then Inl (ConnectError (val_shape_msg (ShapeTuple (map int d)) s t))
          else Inr ()
      | _ \<Rightarrow> Inl AttributeError)"
  by (cases "val s") (simp_all add: check_shapes_match_dispatch dunder_check_val_and_shape_match_def)

lemma check_shapes_match_unchecked:
  "(type_of_shape (shape s), type_of_shape (shape t)) \<notin> {(T_tuple, T_tuple), (T_NoneType, T_tuple)}
   \<Longrightarrow> check_shapes_match s t = Inr ()"
  by (auto simp: check_shapes_match_dispatch)

lemma check_shapes_match_equal:
  "shape s = shape t \<Longrightarrow> check_shapes_match s t = Inr ()"
  by (cases "shape t") (simp_all add: check_shapes_match_dispatch dunder_check_shapes_match_def)

lemma check_shapes_match_not_TypeError: "check_shapes_match s t \<noteq> Inl TypeError"
  by (simp add: check_shapes_match_dispatch dunder_check_shapes_match_def
      dunder_check_val_and_shape_match_def split: option.split)

lemma check_types_match_not_TypeError: "check_types_match s t \<noteq> Inl TypeError"
  by (simp add: check_types_match_def)

lemma make_var_metadata_fields:
  "make_var_metadata p d = Inr m \<Longrightarrow> path m = p \<and> type m = type_of_val (val m)"
  by (cases d) (auto split: option.splits)

lemma make_var_metadata_Some_not_TypeError: "make_var_metadata p (Some d) \<noteq> Inl TypeError"
  by (simp split: option.split)

lemma make_var_metadata_Inr_lookup:
  "make_var_metadata p d = Inr m \<Longrightarrow> \<exists>x. d = Some x"
  by (cases d) auto

lemma check_connections_loop_append:
  "check_connections_loop (pre @ rest) params unknowns =
     (case check_connections_loop pre params unknowns of
        Inl e \<Rightarrow> Inl e
      | Inr u \<Rightarrow> check_connections_loop rest params unknowns)"
  by (induction pre) (auto split: sum.splits)

lemma check_connections_loop_no_TypeError:
  "\<forall>(tgt, src) \<in> set items. dict_contains tgt params \<and> dict_contains src unknowns
   \<Longrightarrow> check_connections_loop items params unknowns \<noteq> Inl TypeError"
proof (induction items)
  case Nil
  then show ?case by simp
next
  case (Cons x items)
  obtain tgt src where x: "x = (tgt, src)" by (cases x)
  from Cons.prems obtain sd td where
    sd: "dict_get unknowns src = Some sd" and td: "dict_get params tgt = Some td"
    by (auto simp: x dict_contains_get)
  have ih: "check_connections_loop items params unknowns \<noteq> Inl TypeError"
    using Cons by simp
  show ?case
    using ih make_var_metadata_Some_not_TypeError check_types_match_not_TypeError
      check_shapes_match_not_TypeError
    by (auto simp: x sd td split: sum.splits)
qed

lemma check_connections_loop_ok_lookup:
  "check_connections_loop items params unknowns = Inr ()
   \<Longrightarrow> \<forall>(tgt, src) \<in> set items. dict_get params tgt \<noteq> None \<and> dict_get unknowns src \<noteq> None"
proof (induction items)
  case Nil
  then show ?case by simp
next
  case (Cons x items)
  obtain tgt src where x: "x = (tgt, src)" by (cases x)
  from Cons.prems obtain source target where
    "make_var_metadata src (dict_get unknowns src) = Inr source"
    "make_var_metadata tgt (dict_get params tgt) = Inr target"
    "check_connections_loop items params unknowns = Inr ()"
    by (auto simp: x split: sum.splits)
  then show ?case
    using Cons.IH make_var_metadata_Inr_lookup by (fastforce simp: x)
qed

lemma type_msg_names:
  "sublist (path src) (type_msg src target)"
  "sublist (path target) (type_msg src target)"
  "sublist (str_type (type src)) (type_msg src target)"
  "sublist (str_type (type target)) (type_msg src target)"
proof -
  show "sublist (path src) (type_msg src target)"
    unfolding type_msg_def
    using sublist_appendI[of "path src" "''Type '' @ apostrophe"] by simp
  show "sublist (path target) (type_msg src target)"
    unfolding type_msg_def
    using sublist_appendI[of "path target"
        "''Type '' @ apostrophe @ path src @ '' of source '' @ apostrophe @ str_type (type src)
         @ apostrophe @ '' must be the same as type '' @ apostrophe"] by simp
  show "sublist (str_type (type src)) (type_msg src target)"
    unfolding type_msg_def
    using sublist_appendI[of "str_type (type src)"
        "''Type '' @ apostrophe @ path src @ '' of source '' @ apostrophe"] by simp
  show "sublist (str_type (type target)) (type_msg src target)"
    unfolding type_msg_def
    using sublist_appendI[of "str_type (type target)"
        "''Type '' @ apostrophe @ path src @ '' of source '' @ apostrophe @ str_type (type src)
         @ apostrophe @ '' must be the same as type '' @ apostrophe @ path target
         @ apostrophe @ '' of target '' @ apostrophe" "apostrophe"] by simp
qed

text \<open>Claim C2 fails as stated. The table is keyed by the class \<^verbatim>\<open>tuple\<close>, so two
  shapes declared as the lists \<^verbatim>\<open>[3]\<close> and \<^verbatim>\<open>[4]\<close>, which are sequences and differ,
  pass validation unchecked. And a source without a declared shape whose value has no
  \<^verbatim>\<open>shape\<close> attribute, here a float, against a target that declares the tuple
  \<^verbatim>\<open>(1,)\<close>, ends in \<^verbatim>\<open>AttributeError\<close>, not in \<^verbatim>\<open>ConnectError\<close>.\<close>

theorem connection_shapes_counterexample:
  "type_of_val (NdArray [3]) = type_of_val (NdArray [4])
   \<and> [3 :: int] \<noteq> [4]
   \<and> check_connections [(''G:C1:a'', ''G:C2:b'')]
        [(''G:C1:a'', \<lparr>val_entry = Some (NdArray [4]), shape_entry = Some (ShapeList [4])\<rparr>)]
        [(''G:C2:b'', \<lparr>val_entry = Some (NdArray [3]), shape_entry = Some (ShapeList [3])\<rparr>)]
     = Inr ()
   \<and> type_of_val FloatVal = type_of_val FloatVal
   \<and> check_connections [(''G:C1:a'', ''G:C2:b'')]
        [(''G:C1:a'', \<lparr>val_entry = Some FloatVal, shape_entry = Some (ShapeTuple [1])\<rparr>)]
        [(''G:C2:b'', \<lparr>val_entry = Some FloatVal, shape_entry = None\<rparr>)]
     = Inl AttributeError"
  by (simp add: check_connections_def dict_items_def dict_get_def check_types_match_def
      check_shapes_match_dispatch dunder_check_val_and_shape_match_def)

text \<open>Claim C2, as the code has it. When the loop of \<^verbatim>\<open>check_connections\<close> reaches a
  connection whose metadata can be built and whose kinds match, the shape check
  dispatches on the classes of the two shapes.
  \<^item> Both shapes are tuples: validation raises \<^verbatim>\<open>ConnectError\<close> if and only if the
    tuples differ; with equal tuples the loop goes on.
  \<^item> The source has no shape, the target's shape is a tuple and the source's value is an
    array: validation raises \<^verbatim>\<open>ConnectError\<close> if and only if the dimensions of the array
    differ from the tuple; with equal dimensions the loop goes on.
  \<^item> Every other pair of classes (both shapes absent, a declared source shape with no
    target shape, a shape that is not a tuple, such as a list): nothing is checked, the
    loop goes on and the connection validated alone succeeds.\<close>

theorem connection_shapes_checked:
  assumes "make_var_metadata src (dict_get unknowns src) = Inr source"
    and "make_var_metadata tgt (dict_get params tgt) = Inr target"
    and "type source = type target"
  shows "(\<forall>a b. shape source = ShapeTuple a \<and> shape target = ShapeTuple b \<longrightarrow>
           check_connections_loop ((tgt, src) # rest) params unknowns
             = (if a \<noteq> b then Inl (ConnectError (shape_msg source target))
                else check_connections_loop rest params unknowns)
           \<and> ((\<exists>msg. check_connections [(tgt, src)] params unknowns = Inl (ConnectError msg))
                \<longleftrightarrow> a \<noteq> b)
           \<and> (check_connections [(tgt, src)] params unknowns = Inr () \<longleftrightarrow> a = b))
    \<and> (\<forall>b dims. shape source = ShapeNone \<and> shape target = ShapeTuple b
             \<and> val source = NdArray dims \<longrightarrow>
           check_connections_loop ((tgt, src) # rest) params unknowns
             = (if map int dims \<noteq> b
                then Inl (ConnectError (val_shape_msg (ShapeTuple (map int dims)) source target))
                else check_connections_loop rest params unknowns)
           \<and> ((\<exists>msg. check_connections [(tgt, src)] params unknowns = Inl (ConnectError msg))
                \<longleftrightarrow> map int dims \<noteq> b)
           \<and> (check_connections [(tgt, src)] params unknowns = Inr () \<longleftrightarrow> map int dims = b))
    \<and> ((type_of_shape (shape source), type_of_shape (shape target))
           \<notin> {(T_tuple, T_tuple), (T_NoneType, T_tuple)} \<longrightarrow>
           check_connections_loop ((tgt, src) # rest) params unknowns
             = check_connections_loop rest params unknowns
           \<and> check_connections [(tgt, src)] params unknowns = Inr ())"
proof -
  have step: "check_connections_loop ((tgt, src) # xs) params unknowns
      = (case check_shapes_match source target of
           Inl e \<Rightarrow> Inl e
         | Inr u \<Rightarrow> check_connections_loop xs params unknowns)" for xs
    using assms by (simp add: check_types_match_def)
  have one: "check_connections [(tgt, src)] params unknowns = check_shapes_match source target"
    using step[of "[]"] by (simp add: check_connections_def dict_items_def split: sum.split)
  have tt: "\<forall>a b. shape source = ShapeTuple a \<and> shape target = ShapeTuple b \<longrightarrow>
           check_connections_loop ((tgt, src) # rest) params unknowns
             = (if a \<noteq> b then Inl (ConnectError (shape_msg source target))
                else check_connections_loop rest params unknowns)
           \<and> ((\<exists>msg. check_connections [(tgt, src)] params unknowns = Inl (ConnectError msg))
                \<longleftrightarrow> a \<noteq> b)
           \<and> (check_connections [(tgt, src)] params unknowns = Inr () \<longleftrightarrow> a = b)"
    by (simp add: step one check_shapes_match_tuples del: check_connections_loop.simps)
  have nt: "\<forall>b dims. shape source = ShapeNone \<and> shape target = ShapeTuple b
             \<and> val source = NdArray dims \<longrightarrow>
           check_connections_loop ((tgt, src) # rest) params unknowns
             = (if map int dims \<noteq> b
                then Inl (ConnectError (val_shape_msg (ShapeTuple (map int dims)) source target))
                else check_connections_loop rest params unknowns)
           \<and> ((\<exists>msg. check_connections [(tgt, src)] params unknowns = Inl (ConnectError msg))
                \<longleftrightarrow> map int dims \<noteq> b)
           \<and> (check_connections [(tgt, src)] params unknowns = Inr () \<longleftrightarrow> map int dims = b)"
    by (simp add: step one check_shapes_match_none_tuple del: check_connections_loop.simps)
  have ot: "(type_of_shape (shape source), type_of_shape (shape target))
           \<notin> {(T_tuple, T_tuple), (T_NoneType, T_tuple)} \<longrightarrow>
           check_connections_loop ((tgt, src) # rest) params unknowns
             = check_connections_loop rest params unknowns
           \<and> check_connections [(tgt, src)] params unknowns = Inr ()"
    using check_shapes_match_unchecked[of source target]
    by (simp add: step one del: check_connections_loop.simps)
  show ?thesis
    using tt nt ot by (intro conjI)
qed

theorem connection_shapes_checked_witness:
  "check_connections [(''G:C1:a'', ''G:C2:b'')]
        [(''G:C1:a'', \<lparr>val_entry = Some (NdArray [4]), shape_entry = Some (ShapeTuple [4])\<rparr>)]
        [(''G:C2:b'', \<lparr>val_entry = Some (NdArray [3]), shape_entry = Some (ShapeTuple [3])\<rparr>)]
     = Inl (ConnectError
         (''Shape '(3,)' of the source 'G:C2:b' must match the shape '(4,)' of the target 'G:C1:a''
          @ [CHR 0x27]))
   \<and> check_connections [(''G:C1:a'', ''G:C2:b'')]
        [(''G:C1:a'', \<lparr>val_entry = Some (NdArray [3]), shape_entry = Some (ShapeTuple [3])\<rparr>)]
        [(''G:C2:b'', \<lparr>val_entry = Some (NdArray [3]), shape_entry = Some (ShapeTuple [3])\<rparr>)]
     = Inr ()
   \<and> check_connections [(''G:C1:a'', ''G:C2:b'')]
        [(''G:C1:a'', \<lparr>val_entry = Some (NdArray [2, 2]), shape_entry = Some (ShapeTuple [2, 2])\<rparr>)]
        [(''G:C2:b'', \<lparr>val_entry = Some (NdArray [2, 2]), shape_entry = None\<rparr>)]
     = Inr ()
   \<and> (\<exists>msg. check_connections [(''G:C1:a'', ''G:C2:b'')]
        [(''G:C1:a'', \<lparr>val_entry = Some (NdArray [2, 2]), shape_entry = Some (ShapeTuple [2, 2])\<rparr>)]
        [(''G:C2:b'', \<lparr>val_entry = Some (NdArray [4]), shape_entry = None\<rparr>)]
     = Inl (ConnectError msg))
   \<and> check_connections [(''G:C1:a'', ''G:C2:b'')]
        [(''G:C1:a'', \<lparr>val_entry = Some (NdArray [3]), shape_entry = None\<rparr>)]
        [(''G:C2:b'', \<lparr>val_entry = Some (NdArray [3]), shape_entry = Some (ShapeTuple [3])\<rparr>)]
     = Inr ()"
proof -
  let ?c = "[(''G:C1:a'', ''G:C2:b'')]"
  have mk: "make_var_metadata p (dict_get [(p, \<lparr>val_entry = Some v, shape_entry = s\<rparr>)] p)
      = Inr \<lparr>path = p, val = v, type = type_of_val v,
             shape = (case s of None \<Rightarrow> ShapeNone | Some x \<Rightarrow> x)\<rparr>" for p v s
    by (simp add: dict_get_def)
  have m: "shape_msg \<lparr>path = ''G:C2:b'', val = NdArray [3], type = T_ndarray, shape = ShapeTuple [3]\<rparr>
             \<lparr>path = ''G:C1:a'', val = NdArray [4], type = T_ndarray, shape = ShapeTuple [4]\<rparr>
     = ''Shape '(3,)' of the source 'G:C2:b' must match the shape '(4,)' of the target 'G:C1:a''
          @ [CHR 0x27]"
    by (simp add: shape_msg_def str_tuple_def str_int_def str_nat.simps digit_chars_def
        apostrophe_def)
  have a: "check_connections ?c
        [(''G:C1:a'', \<lparr>val_entry = Some (NdArray [4]), shape_entry = Some (ShapeTuple [4])\<rparr>)]
        [(''G:C2:b'', \<lparr>val_entry = Some (NdArray [3]), shape_entry = Some (ShapeTuple [3])\<rparr>)]
     = Inl (ConnectError
         (''Shape '(3,)' of the source 'G:C2:b' must match the shape '(4,)' of the target 'G:C1:a''
          @ [CHR 0x27]))"
    using connection_shapes_checked [OF mk mk, where rest = "[]",
        of "''G:C2:b''" "NdArray [3]" "Some (ShapeTuple [3])"
           "''G:C1:a''" "NdArray [4]" "Some (ShapeTuple [4])",
        THEN conjunct1, THEN spec [where x = "[3]"], THEN spec [where x = "[4]"]] m
    by (simp add: check_connections_def dict_items_def)
  have b: "check_connections ?c
        [(''G:C1:a'', \<lparr>val_entry = Some (NdArray [3]), shape_entry = Some (ShapeTuple [3])\<rparr>)]
        [(''G:C2:b'', \<lparr>val_entry = Some (NdArray [3]), shape_entry = Some (ShapeTuple [3])\<rparr>)]
     = Inr ()"
    using connection_shapes_checked [OF mk mk, where rest = "[]",
        of "''G:C2:b''" "NdArray [3]" "Some (ShapeTuple [3])"
           "''G:C1:a''" "NdArray [3]" "Some (ShapeTuple [3])",
        THEN conjunct1, THEN spec [where x = "[3]"], THEN spec [where x = "[3]"]]
    by simp
  have c: "check_connections ?c
        [(''G:C1:a'', \<lparr>val_entry = Some (NdArray [2, 2]), shape_entry = Some (ShapeTuple [2, 2])\<rparr>)]
        [(''G:C2:b'', \<lparr>val_entry = Some (NdArray [2, 2]), shape_entry = None\<rparr>)]
     = Inr ()"
    using connection_shapes_checked [OF mk mk, where rest = "[]",
        of "''G:C2:b''" "NdArray [2, 2]" "None"
           "''G:C1:a''" "NdArray [2, 2]" "Some (ShapeTuple [2, 2])",
        THEN conjunct2, THEN conjunct1, THEN spec [where x = "[2, 2]"],
        THEN spec [where x = "[2, 2]"]]
    by simp
  have d: "\<exists>msg. check_connections ?c
        [(''G:C1:a'', \<lparr>val_entry = Some (NdArray [2, 2]), shape_entry = Some (ShapeTuple [2, 2])\<rparr>)]
        [(''G:C2:b'', \<lparr>val_entry = Some (NdArray [4]), shape_entry = None\<rparr>)]
     = Inl (ConnectError msg)"
    using connection_shapes_checked [OF mk mk, where rest = "[]",
        of "''G:C2:b''" "NdArray [4]" "None"
           "''G:C1:a''" "NdArray [2, 2]" "Some (ShapeTuple [2, 2])",
        THEN conjunct2, THEN conjunct1, THEN spec [where x = "[2, 2]"],
        THEN spec [where x = "[4]"]]
    by simp
  have e: "check_connections ?c
        [(''G:C1:a'', \<lparr>val_entry = Some (NdArray [3]), shape_entry = None\<rparr>)]
        [(''G:C2:b'', \<lparr>val_entry = Some (NdArray [3]), shape_entry = Some (ShapeTuple [3])\<rparr>)]
     = Inr ()"
    using connection_shapes_checked [OF mk mk, where rest = "[]",
        of "''G:C2:b''" "NdArray [3]" "Some (ShapeTuple [3])"
           "''G:C1:a''" "NdArray [3]" "None",
        THEN conjunct2, THEN conjunct2]
    by simp
  show ?thesis
    using a b c d e by (intro conjI)
qed

text \<open>Claim C10. The dispatch table has the two keys \<^verbatim>\<open>(tuple, tuple)\<close> and
  \<^verbatim>\<open>(NoneType, tuple)\<close> only. For every other pair of shape classes the lookup finds
  nothing, the fallback that does nothing is called and no shape error is raised: so it is
  for two shapes given as the lists \<^verbatim>\<open>[3]\<close> and \<^verbatim>\<open>[4]\<close>.\<close>

theorem shape_dispatch_only_tuples:
  assumes "(type_of_shape (shape source), type_of_shape (shape target))
             \<notin> {(T_tuple, T_tuple), (T_NoneType, T_tuple)}"
  shows "dict_get dunder_shape_checks
           (type_of_shape (shape source), type_of_shape (shape target)) = None
         \<and> check_shapes_match source target = Inr ()"
  using assms
  by (auto simp: check_shapes_match_dispatch dunder_shape_checks_def dict_get_def)

theorem shape_dispatch_only_tuples_witness:
  "(type_of_shape (shape \<lparr>path = ''G:C2:b'', val = NdArray [3], type = T_ndarray, shape = ShapeList [3]\<rparr>),
    type_of_shape (shape \<lparr>path = ''G:C1:a'', val = NdArray [4], type = T_ndarray, shape = ShapeList [4]\<rparr>))
     \<notin> {(T_tuple, T_tuple), (T_NoneType, T_tuple)}
   \<and> check_shapes_match
         \<lparr>path = ''G:C2:b'', val = NdArray [3], type = T_ndarray, shape = ShapeList [3]\<rparr>
         \<lparr>path = ''G:C1:a'', val = NdArray [4], type = T_ndarray, shape = ShapeList [4]\<rparr>
        = Inr ()"
proof -
  have h: "(type_of_shape (shape \<lparr>path = ''G:C2:b'', val = NdArray [3], type = T_ndarray, shape = ShapeList [3]\<rparr>),
    type_of_shape (shape \<lparr>path = ''G:C1:a'', val = NdArray [4], type = T_ndarray, shape = ShapeList [4]\<rparr>))
     \<notin> {(T_tuple, T_tuple), (T_NoneType, T_tuple)}"
    by simp
  show ?thesis
    using h shape_dispatch_only_tuples [OF h, THEN conjunct2] by (intro conjI)
qed

text \<open>Claim C5. When the loop of \<^verbatim>\<open>check_connections\<close> reaches a connection whose
  source and target metadata can be built, the kind of each is the class of its value.
  If the two kinds differ, validation raises \<^verbatim>\<open>ConnectError\<close>, and the message holds
  both paths and the printed form of both kinds. If the kinds are equal and the shapes
  match (the two shape entries are equal, both absent included, or the source has no shape
  and its array has the dimensions the target declares), the connection passes: the loop
  goes on to the rest, and the connection validated alone succeeds.\<close>

theorem connection_types_checked:
  assumes "make_var_metadata src (dict_get unknowns src) = Inr source"
    and "make_var_metadata tgt (dict_get params tgt) = Inr target"
  shows "path source = src \<and> path target = tgt
    \<and> type source = type_of_val (val source) \<and> type target = type_of_val (val target)
    \<and> (type source \<noteq> type target \<longrightarrow>
          check_connections_loop ((tgt, src) # rest) params unknowns
            = Inl (ConnectError (type_msg source target))
          \<and> check_connections [(tgt, src)] params unknowns
            = Inl (ConnectError (type_msg source target))
          \<and> sublist src (type_msg source target)
          \<and> sublist tgt (type_msg source target)
          \<and> sublist (str_type (type source)) (type_msg source target)
          \<and> sublist (str_type (type target)) (type_msg source target))
    \<and> (type source = type target
         \<and> (shape source = shape target
              \<or> (\<exists>dims. shape source = ShapeNone \<and> val source = NdArray dims
                    \<and> shape target = ShapeTuple (map int dims))) \<longrightarrow>
          check_connections_loop ((tgt, src) # rest) params unknowns
            = check_connections_loop rest params unknowns
          \<and> check_connections [(tgt, src)] params unknowns = Inr ())"
proof -
  have f: "path source = src" "path target = tgt"
    "type source = type_of_val (val source)" "type target = type_of_val (val target)"
    using assms make_var_metadata_fields by blast+
  have bad: "type source \<noteq> type target \<longrightarrow>
          check_connections_loop ((tgt, src) # rest) params unknowns
            = Inl (ConnectError (type_msg source target))
          \<and> check_connections [(tgt, src)] params unknowns
            = Inl (ConnectError (type_msg source target))"
    using assms by (simp add: check_connections_def dict_items_def check_types_match_def)
  have names: "sublist src (type_msg source target)" "sublist tgt (type_msg source target)"
    "sublist (str_type (type source)) (type_msg source target)"
    "sublist (str_type (type target)) (type_msg source target)"
    using type_msg_names[where src = source and target = target] f by simp_all
  have ok: "check_shapes_match source target = Inr ()"
    if "shape source = shape target
              \<or> (\<exists>dims. shape source = ShapeNone \<and> val source = NdArray dims
                    \<and> shape target = ShapeTuple (map int dims))"
    using that by (auto simp: check_shapes_match_equal check_shapes_match_none_tuple)
  have good: "type source = type target
         \<and> (shape source = shape target
              \<or> (\<exists>dims. shape source = ShapeNone \<and> val source = NdArray dims
                    \<and> shape target = ShapeTuple (map int dims))) \<longrightarrow>
          check_connections_loop ((tgt, src) # rest) params unknowns
            = check_connections_loop rest params unknowns
          \<and> check_connections [(tgt, src)] params unknowns = Inr ()"
    using assms ok by (simp add: check_connections_def dict_items_def check_types_match_def)
  show ?thesis
    using f bad names good by (intro conjI) simp_all
qed

theorem connection_types_checked_witness:
  "make_var_metadata ''G:C2:b''
       (dict_get [(''G:C2:b'', \<lparr>val_entry = Some FloatVal, shape_entry = None\<rparr>)] ''G:C2:b'')
     = Inr \<lparr>path = ''G:C2:b'', val = FloatVal, type = T_float, shape = ShapeNone\<rparr>
   \<and> make_var_metadata ''G:C1:a''
       (dict_get [(''G:C1:a'', \<lparr>val_entry = Some (IntVal 1), shape_entry = None\<rparr>)] ''G:C1:a'')
     = Inr \<lparr>path = ''G:C1:a'', val = IntVal 1, type = T_int, shape = ShapeNone\<rparr>
   \<and> check_connections [(''G:C1:a'', ''G:C2:b'')]
        [(''G:C1:a'', \<lparr>val_entry = Some (IntVal 1), shape_entry = None\<rparr>)]
        [(''G:C2:b'', \<lparr>val_entry = Some FloatVal, shape_entry = None\<rparr>)]
     = Inl (ConnectError
         (''Type 'G:C2:b of source '<class 'float'>' must be the same as type 'G:C1:a' of target '<class 'int'>''
          @ [CHR 0x27]))
   \<and> make_var_metadata ''G:C2:b''
       (dict_get [(''G:C2:b'', \<lparr>val_entry = Some (NdArray [3]), shape_entry = Some (ShapeTuple [3])\<rparr>)]
          ''G:C2:b'')
     = Inr \<lparr>path = ''G:C2:b'', val = NdArray [3], type = T_ndarray, shape = ShapeTuple [3]\<rparr>
   \<and> make_var_metadata ''G:C1:a''
       (dict_get [(''G:C1:a'', \<lparr>val_entry = Some (NdArray [3]), shape_entry = Some (ShapeTuple [3])\<rparr>)]
          ''G:C1:a'')
     = Inr \<lparr>path = ''G:C1:a'', val = NdArray [3], type = T_ndarray, shape = ShapeTuple [3]\<rparr>
   \<and> check_connections [(''G:C1:a'', ''G:C2:b'')]
        [(''G:C1:a'', \<lparr>val_entry = Some (NdArray [3]), shape_entry = Some (ShapeTuple [3])\<rparr>)]
        [(''G:C2:b'', \<lparr>val_entry = Some (NdArray [3]), shape_entry = Some (ShapeTuple [3])\<rparr>)]
     = Inr ()"
proof -
  have s1: "make_var_metadata ''G:C2:b''
       (dict_get [(''G:C2:b'', \<lparr>val_entry = Some FloatVal, shape_entry = None\<rparr>)] ''G:C2:b'')
     = Inr \<lparr>path = ''G:C2:b'', val = FloatVal, type = T_float, shape = ShapeNone\<rparr>"
    by (simp add: dict_get_def)
  have t1: "make_var_metadata ''G:C1:a''
       (dict_get [(''G:C1:a'', \<lparr>val_entry = Some (IntVal 1), shape_entry = None\<rparr>)] ''G:C1:a'')
     = Inr \<lparr>path = ''G:C1:a'', val = IntVal 1, type = T_int, shape = ShapeNone\<rparr>"
    by (simp add: dict_get_def)
  have s2: "make_var_metadata ''G:C2:b''
       (dict_get [(''G:C2:b'', \<lparr>val_entry = Some (NdArray [3]), shape_entry = Some (ShapeTuple [3])\<rparr>)]
          ''G:C2:b'')
     = Inr \<lparr>path = ''G:C2:b'', val = NdArray [3], type = T_ndarray, shape = ShapeTuple [3]\<rparr>"
    by (simp add: dict_get_def)
  have t2: "make_var_metadata ''G:C1:a''
       (dict_get [(''G:C1:a'', \<lparr>val_entry = Some (NdArray [3]), shape_entry = Some (ShapeTuple [3])\<rparr>)]
          ''G:C1:a'')
     = Inr \<lparr>path = ''G:C1:a'', val = NdArray [3], type = T_ndarray, shape = ShapeTuple [3]\<rparr>"
    by (simp add: dict_get_def)
  have m: "type_msg \<lparr>path = ''G:C2:b'', val = FloatVal, type = T_float, shape = ShapeNone\<rparr>
             \<lparr>path = ''G:C1:a'', val = IntVal 1, type = T_int, shape = ShapeNone\<rparr>
     = ''Type 'G:C2:b of source '<class 'float'>' must be the same as type 'G:C1:a' of target '<class 'int'>''
          @ [CHR 0x27]"
    by (simp add: type_msg_def str_type_def apostrophe_def)
  have a: "check_connections [(''G:C1:a'', ''G:C2:b'')]
        [(''G:C1:a'', \<lparr>val_entry = Some (IntVal 1), shape_entry = None\<rparr>)]
        [(''G:C2:b'', \<lparr>val_entry = Some FloatVal, shape_entry = None\<rparr>)]
     = Inl (ConnectError
         (''Type 'G:C2:b of source '<class 'float'>' must be the same as type 'G:C1:a' of target '<class 'int'>''
          @ [CHR 0x27]))"
    using connection_types_checked [OF s1 t1, where rest = "[]"] m by simp
  have b: "check_connections [(''G:C1:a'', ''G:C2:b'')]
        [(''G:C1:a'', \<lparr>val_entry = Some (NdArray [3]), shape_entry = Some (ShapeTuple [3])\<rparr>)]
        [(''G:C2:b'', \<lparr>val_entry = Some (NdArray [3]), shape_entry = Some (ShapeTuple [3])\<rparr>)]
     = Inr ()"
    using connection_types_checked [OF s2 t2, where rest = "[]"] by simp
  show ?thesis
    using s1 t1 a s2 t2 b by (intro conjI)
qed

text \<open>Claim C9. \<^verbatim>\<open>check_connections\<close> looks paths up with \<^verbatim>\<open>dict.get\<close>. For a source
  that the unknowns do not have, or a target that the parameters do not have, the lookup
  gives \<^verbatim>\<open>None\<close> and \<^verbatim>\<open>make_var_metadata\<close> raises \<^verbatim>\<open>TypeError\<close>, not
  \<^verbatim>\<open>ConnectError\<close>; the loop raises it as soon as it reaches that connection, so
  after connections that pass the whole call ends in \<^verbatim>\<open>TypeError\<close>. When every
  target is a parameter and every source an unknown, \<^verbatim>\<open>TypeError\<close> is never raised;
  when some endpoint is missing, the call never succeeds.\<close>

theorem check_connections_lookup_precondition:
  "(dict_get unknowns src = None \<longrightarrow>
       make_var_metadata src (dict_get unknowns src) = Inl TypeError
       \<and> check_connections_loop ((tgt, src) # rest) params unknowns = Inl TypeError)
   \<and> (dict_get params tgt = None
        \<and> (\<exists>source. make_var_metadata src (dict_get unknowns src) = Inr source) \<longrightarrow>
       make_var_metadata tgt (dict_get params tgt) = Inl TypeError
       \<and> check_connections_loop ((tgt, src) # rest) params unknowns = Inl TypeError)
   \<and> (check_connections_loop pre params unknowns = Inr ()
        \<and> (dict_get unknowns src = None
             \<or> dict_get params tgt = None
                \<and> (\<exists>source. make_var_metadata src (dict_get unknowns src) = Inr source)) \<longrightarrow>
       check_connections (pre @ (tgt, src) # rest) params unknowns = Inl TypeError)
   \<and> ((\<forall>(t, s) \<in> set (dict_items connections).
           dict_contains t params \<and> dict_contains s unknowns) \<longrightarrow>
       check_connections connections params unknowns \<noteq> Inl TypeError)
   \<and> (\<not> (\<forall>(t, s) \<in> set (dict_items connections).
           dict_contains t params \<and> dict_contains s unknowns) \<longrightarrow>
       check_connections connections params unknowns \<noteq> Inr ())"
proof -
  have a: "dict_get unknowns src = None \<longrightarrow>
       make_var_metadata src (dict_get unknowns src) = Inl TypeError
       \<and> check_connections_loop ((tgt, src) # rest) params unknowns = Inl TypeError"
    by simp
  have b: "dict_get params tgt = None
        \<and> (\<exists>source. make_var_metadata src (dict_get unknowns src) = Inr source) \<longrightarrow>
       make_var_metadata tgt (dict_get params tgt) = Inl TypeError
       \<and> check_connections_loop ((tgt, src) # rest) params unknowns = Inl TypeError"
    by auto
  have c: "check_connections_loop pre params unknowns = Inr ()
        \<and> (dict_get unknowns src = None
             \<or> dict_get params tgt = None
                \<and> (\<exists>source. make_var_metadata src (dict_get unknowns src) = Inr source)) \<longrightarrow>
       check_connections (pre @ (tgt, src) # rest) params unknowns = Inl TypeError"
    using a b by (auto simp: check_connections_def dict_items_def check_connections_loop_append
        simp del: check_connections_loop.simps)
  have d: "(\<forall>(t, s) \<in> set (dict_items connections).
           dict_contains t params \<and> dict_contains s unknowns) \<longrightarrow>
       check_connections connections params unknowns \<noteq> Inl TypeError"
    using check_connections_loop_no_TypeError[of connections params unknowns]
    by (simp add: check_connections_def dict_items_def)
  have e: "\<not> (\<forall>(t, s) \<in> set (dict_items connections).
           dict_contains t params \<and> dict_contains s unknowns) \<longrightarrow>
       check_connections connections params unknowns \<noteq> Inr ()"
    using check_connections_loop_ok_lookup[of connections params unknowns]
    by (auto simp: check_connections_def dict_items_def dict_contains_get)
  show ?thesis
    using a b c d e by (intro conjI)
qed

theorem check_connections_lookup_precondition_witness:
  "dict_get ([] :: (string, descriptor) dict) ''G:C2:b'' = None
   \<and> check_connections [(''G:C1:a'', ''G:C2:b'')]
        [(''G:C1:a'', \<lparr>val_entry = Some FloatVal, shape_entry = None\<rparr>)] []
     = Inl TypeError
   \<and> dict_contains ''G:C1:a'' [(''G:C1:a'', \<lparr>val_entry = Some FloatVal, shape_entry = None\<rparr>)]
   \<and> dict_contains ''G:C2:b'' [(''G:C2:b'', \<lparr>val_entry = Some FloatVal, shape_entry = None\<rparr>)]
   \<and> check_connections [(''G:C1:a'', ''G:C2:b'')]
        [(''G:C1:a'', \<lparr>val_entry = Some FloatVal, shape_entry = None\<rparr>)]
        [(''G:C2:b'', \<lparr>val_entry = Some FloatVal, shape_entry = None\<rparr>)]
     \<noteq> Inl TypeError"
proof -
  have h1: "dict_get ([] :: (string, descriptor) dict) ''G:C2:b'' = None"
    by (simp add: dict_get_def)
  have h2: "\<forall>(t, s) \<in> set (dict_items [(''G:C1:a'', ''G:C2:b'')]).
         dict_contains t [(''G:C1:a'', \<lparr>val_entry = Some FloatVal, shape_entry = None\<rparr>)]
         \<and> dict_contains s [(''G:C2:b'', \<lparr>val_entry = Some FloatVal, shape_entry = None\<rparr>)]"
    by (simp add: dict_items_def dict_contains_def dict_keys_def)
  have a: "check_connections [(''G:C1:a'', ''G:C2:b'')]
        [(''G:C1:a'', \<lparr>val_entry = Some FloatVal, shape_entry = None\<rparr>)] []
     = Inl TypeError"
    using h1 check_connections_lookup_precondition
      [where unknowns = "[]" and src = "''G:C2:b''" and tgt = "''G:C1:a''" and pre = "[]"
         and rest = "[]"
         and params = "[(''G:C1:a'', \<lparr>val_entry = Some FloatVal, shape_entry = None\<rparr>)]",
       THEN conjunct2, THEN conjunct2, THEN conjunct1]
    by simp
  have b: "check_connections [(''G:C1:a'', ''G:C2:b'')]
        [(''G:C1:a'', \<lparr>val_entry = Some FloatVal, shape_entry = None\<rparr>)]
        [(''G:C2:b'', \<lparr>val_entry = Some FloatVal, shape_entry = None\<rparr>)]
     \<noteq> Inl TypeError"
    using h2 check_connections_lookup_precondition
      [where connections = "[(''G:C1:a'', ''G:C2:b'')]"
         and unknowns = "[(''G:C2:b'', \<lparr>val_entry = Some FloatVal, shape_entry = None\<rparr>)]"
         and params = "[(''G:C1:a'', \<lparr>val_entry = Some FloatVal, shape_entry = None\<rparr>)]",
       THEN conjunct2, THEN conjunct2, THEN conjunct2, THEN conjunct1]
    by blast
  have c: "dict_contains ''G:C1:a'' [(''G:C1:a'', \<lparr>val_entry = Some FloatVal, shape_entry = None\<rparr>)]"
    "dict_contains ''G:C2:b'' [(''G:C2:b'', \<lparr>val_entry = Some FloatVal, shape_entry = None\<rparr>)]"
    by (simp_all add: dict_contains_def dict_keys_def)
  show ?thesis
    using h1 a c b by (intro conjI)
qed

subsection \<open>Parameters without a source\<close>

lemma sublist_embed:
  assumes "sublist x y"
  shows "sublist x (a @ y @ b)"
proof -
  from assms obtain ps ss where "y = ps @ x @ ss"
    by (auto simp: sublist_def)
  then have "a @ y @ b = (a @ ps) @ x @ (ss @ b)" by simp
  then show ?thesis
    using sublist_appendI[of x "a @ ps" "ss @ b"] by simp
qed

lemma sublist_py_join: "x \<in> set xs \<Longrightarrow> sublist x (py_join sep xs)"
proof (induction sep xs rule: py_join.induct)
  case (1 sep)
  then show ?case by simp
next
  case (2 sep y)
  then show ?case by simp
next
  case (3 sep y z zs)
  show ?case
  proof (cases "x = y")
    case True
    then show ?thesis by simp
  next
    case False
    with 3 have "sublist x (py_join sep (z # zs))" by simp
    then have "sublist x ((y @ sep) @ py_join sep (z # zs) @ [])"
      by (rule sublist_embed)
    then show ?thesis by simp
  qed
qed

lemma hanging_msg_names:
  assumes "p \<in> set hanging_params"
  shows "sublist (repr_str p) (hanging_msg hanging_params)"
proof -
  have "sublist (repr_str p) (py_join '', '' (map repr_str hanging_params))"
    using assms by (intro sublist_py_join) simp
  then have "sublist (repr_str p)
      (''Parameters ['' @ py_join '', '' (map repr_str hanging_params)
        @ ''] have no associated unknowns.'')"
    by (rule sublist_embed)
  then show ?thesis
    by (simp add: hanging_msg_def str_list_def)
qed

lemma set_hanging_params_of:
  "set (hanging_params_of params_dict connections)
     = set (dict_keys params_dict) - set (dict_keys connections)"
  by (auto simp: hanging_params_of_def)

lemma printable_not_control:
  assumes "printable c"
  shows "c \<noteq> CHR 0x09" "c \<noteq> CHR 0x0A" "c \<noteq> CHR 0x0D"
proof -
  show "c \<noteq> CHR 0x09"
  proof
    assume "c = CHR 0x09"
    with assms show False by (simp add: printable_def)
  qed
  show "c \<noteq> CHR 0x0A"
  proof
    assume "c = CHR 0x0A"
    with assms show False by (simp add: printable_def)
  qed
  show "c \<noteq> CHR 0x0D"
  proof
    assume "c = CHR 0x0D"
    with assms show False by (simp add: printable_def)
  qed
qed

lemma repr_char_plain:
  assumes "printable c" "c \<noteq> CHR 0x27" "c \<noteq> CHR 0x5C"
  shows "repr_char (CHR 0x27) c = [c]"
  using assms printable_not_control[OF assms(1)] by (simp add: repr_char_def)

lemma repr_str_plain:
  assumes "\<forall>c \<in> set s. printable c \<and> c \<noteq> CHR 0x27 \<and> c \<noteq> CHR 0x5C"
  shows "repr_str s = apostrophe @ s @ apostrophe"
proof -
  have n: "CHR 0x27 \<notin> set s"
  proof
    assume a: "CHR 0x27 \<in> set s"
    from assms[rule_format, OF a] show False by simp
  qed
  then have q: "repr_quote s = CHR 0x27"
    by (simp add: repr_quote_def)
  have "concat (map (repr_char (CHR 0x27)) s) = s"
    using assms by (induction s) (simp_all add: repr_char_plain)
  then show ?thesis
    by (simp add: repr_str_def q apostrophe_def Let_def)
qed

text \<open>Claim C6. The completeness check of \<^verbatim>\<open>setup\<close> fails if and only if some
  parameter is not the target of a connection, that is, if the set of the parameters minus
  the keys of the connections is not empty. The error is built from the list of all such
  parameters: the list has exactly the parameters of that difference, and the message
  holds the \<^verbatim>\<open>repr\<close> of each of them (the path itself between apostrophes, when the path
  has only printable characters and neither an apostrophe nor a backslash). For the
  parameters \<^verbatim>\<open>p1, p2, p3\<close> and connections to \<^verbatim>\<open>p1\<close> and \<^verbatim>\<open>p3\<close> the message
  lists \<^verbatim>\<open>p2\<close> alone.\<close>

theorem check_complete_lists_all_hanging:
  "(check_complete params_dict connections = Inr ()
      \<longleftrightarrow> set (dict_keys params_dict) - set (dict_keys connections) = {})
   \<and> (set (dict_keys params_dict) - set (dict_keys connections) \<noteq> {} \<longrightarrow>
        check_complete params_dict connections
          = Inl (RuntimeError (hanging_msg (hanging_params_of params_dict connections))))
   \<and> set (hanging_params_of params_dict connections)
        = set (dict_keys params_dict) - set (dict_keys connections)
   \<and> (\<forall>p \<in> set (dict_keys params_dict) - set (dict_keys connections).
        sublist (repr_str p) (hanging_msg (hanging_params_of params_dict connections))
        \<and> ((\<forall>c \<in> set p. printable c \<and> c \<noteq> CHR 0x27 \<and> c \<noteq> CHR 0x5C) \<longrightarrow>
             sublist p (hanging_msg (hanging_params_of params_dict connections))))"
proof -
  let ?h = "hanging_params_of params_dict connections"
  have s: "set ?h = set (dict_keys params_dict) - set (dict_keys connections)"
    by (rule set_hanging_params_of)
  have e: "?h = [] \<longleftrightarrow> set (dict_keys params_dict) - set (dict_keys connections) = {}"
    using s set_empty[of ?h] by simp
  have a: "check_complete params_dict connections = Inr ()
      \<longleftrightarrow> set (dict_keys params_dict) - set (dict_keys connections) = {}"
    using e by (simp add: check_complete_def Let_def)
  have b: "set (dict_keys params_dict) - set (dict_keys connections) \<noteq> {} \<longrightarrow>
        check_complete params_dict connections = Inl (RuntimeError (hanging_msg ?h))"
    using e by (simp add: check_complete_def Let_def)
  have c: "sublist (repr_str p) (hanging_msg ?h)
        \<and> ((\<forall>c \<in> set p. printable c \<and> c \<noteq> CHR 0x27 \<and> c \<noteq> CHR 0x5C) \<longrightarrow>
             sublist p (hanging_msg ?h))"
    if "p \<in> set (dict_keys params_dict) - set (dict_keys connections)" for p
  proof -
    from that s have m: "p \<in> set ?h" by simp
    then have r: "sublist (repr_str p) (hanging_msg ?h)"
      by (rule hanging_msg_names)
    have "sublist p (hanging_msg ?h)"
      if plain: "\<forall>c \<in> set p. printable c \<and> c \<noteq> CHR 0x27 \<and> c \<noteq> CHR 0x5C"
    proof -
      from r obtain ps ss where "hanging_msg ?h = ps @ repr_str p @ ss"
        by (auto simp: sublist_def)
      then have "hanging_msg ?h = (ps @ apostrophe) @ p @ (apostrophe @ ss)"
        by (simp add: repr_str_plain[OF plain])
      then show ?thesis
        using sublist_appendI[of p "ps @ apostrophe" "apostrophe @ ss"] by simp
    qed
    with r show ?thesis by simp
  qed
  show ?thesis
  proof (intro conjI ballI)
    show "check_complete params_dict connections = Inr ()
      \<longleftrightarrow> set (dict_keys params_dict) - set (dict_keys connections) = {}"
      by (rule a)
    show "set (dict_keys params_dict) - set (dict_keys connections) \<noteq> {} \<longrightarrow>
        check_complete params_dict connections = Inl (RuntimeError (hanging_msg ?h))"
      by (rule b)
    show "set ?h = set (dict_keys params_dict) - set (dict_keys connections)"
      by (rule s)
  next
    fix p assume p: "p \<in> set (dict_keys params_dict) - set (dict_keys connections)"
    show "sublist (repr_str p) (hanging_msg ?h)"
      using c[OF p] by (rule conjunct1)
    show "(\<forall>c \<in> set p. printable c \<and> c \<noteq> CHR 0x27 \<and> c \<noteq> CHR 0x5C) \<longrightarrow>
             sublist p (hanging_msg ?h)"
      using c[OF p] by (rule conjunct2)
  qed
qed

theorem check_complete_lists_all_hanging_witness:
  "set (dict_keys [(''p1'', ()), (''p2'', ()), (''p3'', ())])
     - set (dict_keys [(''p1'', ''u1''), (''p3'', ''u3'')]) = {''p2''}
   \<and> hanging_params_of [(''p1'', ()), (''p2'', ()), (''p3'', ())] [(''p1'', ''u1''), (''p3'', ''u3'')]
       = [''p2'']
   \<and> check_complete [(''p1'', ()), (''p2'', ()), (''p3'', ())] [(''p1'', ''u1''), (''p3'', ''u3'')]
       = Inl (RuntimeError ''Parameters ['p2'] have no associated unknowns.'')"
proof -
  have d: "set (dict_keys [(''p1'', ()), (''p2'', ()), (''p3'', ())])
     - set (dict_keys [(''p1'', ''u1''), (''p3'', ''u3'')]) = {''p2''}"
    by (simp add: dict_keys_def insert_Diff_if)
  have h: "hanging_params_of [(''p1'', ()), (''p2'', ()), (''p3'', ())]
       [(''p1'', ''u1''), (''p3'', ''u3'')] = [''p2'']"
    by (simp add: hanging_params_of_def dict_keys_def)
  have m: "hanging_msg [''p2''] = ''Parameters ['p2'] have no associated unknowns.''"
    by (simp add: hanging_msg_def str_list_def repr_str_def repr_quote_def repr_char_def
        printable_def Let_def)
  have "check_complete [(''p1'', ()), (''p2'', ()), (''p3'', ())] [(''p1'', ''u1''), (''p3'', ''u3'')]
       = Inl (RuntimeError ''Parameters ['p2'] have no associated unknowns.'')"
    using d h m check_complete_lists_all_hanging
      [where params_dict = "[(''p1'', ()), (''p2'', ()), (''p3'', ())]"
         and connections = "[(''p1'', ''u1''), (''p3'', ''u3'')]",
       THEN conjunct2, THEN conjunct1]
    by simp
  with d h show ?thesis by (intro conjI)
qed

subsection \<open>Ownership\<close>

lemma common_parts_loop_acc:
  "common_parts_loop zs acc = acc @ common_parts_loop zs []"
proof (induction zs arbitrary: acc)
  case Nil
  then show ?case by simp
next
  case (Cons z zs)
  obtain p u where z: "z = (p, u)" by (cases z)
  show ?case
    using Cons.IH[of "acc @ [p]"] Cons.IH[of "[p]"] Cons.IH[of "acc @ [u]"] Cons.IH[of "[u]"]
    by (simp add: z)
qed

lemma common_parts_loop_lcp:
  "common_parts_loop (zip a b) [] = longest_common_prefix a b"
proof (induction a b rule: longest_common_prefix.induct)
  case (1 x xs y ys)
  then show ?case
    using common_parts_loop_acc[of "zip xs ys" "[x]"] common_parts_loop_acc[of "zip xs ys" "[y]"]
    by simp
qed simp_all

lemma map_of_dict_setitem: "map_of (dict_setitem d k v) = (map_of d)(k \<mapsto> v)"
  by (induction d) auto

lemma dict_get_setdefault_append:
  "dict_get (setdefault_append param_owners owner par) ow =
     (if ow = owner
      then Some ((case dict_get param_owners owner of None \<Rightarrow> [] | Some pars \<Rightarrow> pars) @ [par])
      else dict_get param_owners ow)"
  by (simp add: setdefault_append_def dict_get_def map_of_dict_setitem split: option.split)

lemma targets_of_Nil: "targets_of [] ow = []"
  by (simp add: targets_of_def dict_items_def)

lemma targets_of_Cons:
  "targets_of ((par, unk) # cs) ow =
     (if owner_of par unk = ow then par # targets_of cs ow else targets_of cs ow)"
  by (simp add: targets_of_def dict_items_def)

lemma assign_fold_get:
  "dict_get (foldl (\<lambda>param_owners (par, unk).
                setdefault_append param_owners (owner_of par unk) par) po cs) ow =
     (if targets_of cs ow = [] then dict_get po ow
      else Some ((case dict_get po ow of None \<Rightarrow> [] | Some pars \<Rightarrow> pars) @ targets_of cs ow))"
proof (induction cs arbitrary: po)
  case Nil
  then show ?case by (simp add: targets_of_Nil)
next
  case (Cons c cs)
  obtain par unk where c: "c = (par, unk)" by (cases c)
  show ?case
    by (simp add: c Cons.IH targets_of_Cons dict_get_setdefault_append)
qed

lemma dict_get_assign_parameters:
  "dict_get (assign_parameters connections) ow =
     (if targets_of connections ow = [] then None else Some (targets_of connections ow))"
  by (simp add: assign_parameters_def dict_items_def assign_fold_get) (simp add: dict_get_def)

lemma set_targets_of:
  "set (targets_of connections ow) =
     {par. \<exists>unk. (par, unk) \<in> set (dict_items connections) \<and> owner_of par unk = ow}"
  by (auto simp: targets_of_def image_iff)

lemma dict_keys_assign_parameters:
  "set (dict_keys (assign_parameters connections)) =
     {ow. \<exists>par unk. (par, unk) \<in> set (dict_items connections) \<and> owner_of par unk = ow}"
proof -
  have "ow \<in> set (dict_keys (assign_parameters connections))
        \<longleftrightarrow> (\<exists>par unk. (par, unk) \<in> set (dict_items connections) \<and> owner_of par unk = ow)"
    for ow
  proof -
    have "ow \<in> set (dict_keys (assign_parameters connections))
          \<longleftrightarrow> set (targets_of connections ow) \<noteq> {}"
      using dict_contains_get[of ow "assign_parameters connections"]
      by (simp add: dict_contains_def dict_get_assign_parameters)
    also have "\<dots> \<longleftrightarrow> (\<exists>par unk. (par, unk) \<in> set (dict_items connections)
                              \<and> owner_of par unk = ow)"
      unfolding set_targets_of by blast
    finally show ?thesis .
  qed
  then show ?thesis by blast
qed

lemma prefix_nth_eq: "prefix xs ys \<Longrightarrow> i < length xs \<Longrightarrow> ys ! i = xs ! i"
  by (auto simp: prefix_def nth_append)

lemma lcp_stops_at_mismatch:
  assumes "i < length a" "i < length b" "a ! i \<noteq> b ! i"
  shows "length (longest_common_prefix a b) \<le> i"
proof (rule ccontr)
  assume "\<not> length (longest_common_prefix a b) \<le> i"
  then have l: "i < length (longest_common_prefix a b)" by simp
  have "a ! i = longest_common_prefix a b ! i"
    using longest_common_prefix_prefix1[of a b] l by (rule prefix_nth_eq)
  moreover have "b ! i = longest_common_prefix a b ! i"
    using longest_common_prefix_prefix2[of a b] l by (rule prefix_nth_eq)
  ultimately show False using assms(3) by simp
qed

text \<open>Claim C3. The owner that \<^verbatim>\<open>assign_parameters\<close> computes for a connection is the
  join with colons of the longest common prefix of the segments of the target and of the
  source, both split at the colons: the loop collects exactly that prefix, which is a
  prefix of both segment lists and has every common prefix as a prefix; it ends at the
  first position where the segments differ, so an equal segment after a divergence is
  never part of the owner. Every target of the connections is listed under its owner, and
  a target is listed under an owner only when it is that of one of its connections. The
  examples: \<^verbatim>\<open>G1:C1:x\<close> with \<^verbatim>\<open>G1:C2:y\<close> gives \<^verbatim>\<open>G1\<close>; \<^verbatim>\<open>G1:C1:x\<close> with
  \<^verbatim>\<open>G1:C1:z\<close> gives \<^verbatim>\<open>G1:C1\<close>; \<^verbatim>\<open>A:x\<close> with \<^verbatim>\<open>B:y\<close> gives the empty path;
  \<^verbatim>\<open>A:B:X\<close> with \<^verbatim>\<open>A:C:X\<close> gives \<^verbatim>\<open>A\<close>.\<close>

theorem owner_is_longest_common_prefix:
  "owner_of par unk
     = py_join '':'' (longest_common_prefix (py_split CHR '':'' par) (py_split CHR '':'' unk))
   \<and> common_parts_loop (zip (py_split CHR '':'' par) (py_split CHR '':'' unk)) []
       = longest_common_prefix (py_split CHR '':'' par) (py_split CHR '':'' unk)
   \<and> prefix (longest_common_prefix (py_split CHR '':'' par) (py_split CHR '':'' unk))
        (py_split CHR '':'' par)
   \<and> prefix (longest_common_prefix (py_split CHR '':'' par) (py_split CHR '':'' unk))
        (py_split CHR '':'' unk)
   \<and> (\<forall>q. prefix q (py_split CHR '':'' par) \<and> prefix q (py_split CHR '':'' unk) \<longrightarrow>
        prefix q (longest_common_prefix (py_split CHR '':'' par) (py_split CHR '':'' unk)))
   \<and> (\<forall>i. i < length (py_split CHR '':'' par) \<and> i < length (py_split CHR '':'' unk)
          \<and> py_split CHR '':'' par ! i \<noteq> py_split CHR '':'' unk ! i \<longrightarrow>
        length (longest_common_prefix (py_split CHR '':'' par) (py_split CHR '':'' unk)) \<le> i)
   \<and> ((par, unk) \<in> set (dict_items connections) \<longrightarrow>
        (\<exists>pars. dict_get (assign_parameters connections) (owner_of par unk) = Some pars
           \<and> par \<in> set pars))
   \<and> (\<forall>ow pars p. dict_get (assign_parameters connections) ow = Some pars \<and> p \<in> set pars \<longrightarrow>
        (\<exists>u. (p, u) \<in> set (dict_items connections) \<and> owner_of p u = ow))
   \<and> owner_of ''G1:C1:x'' ''G1:C2:y'' = ''G1''
   \<and> owner_of ''G1:C1:x'' ''G1:C1:z'' = ''G1:C1''
   \<and> owner_of ''A:x'' ''B:y'' = ''''
   \<and> owner_of ''A:B:X'' ''A:C:X'' = ''A''"
proof -
  let ?a = "py_split CHR '':'' par" and ?b = "py_split CHR '':'' unk"
  have c1: "owner_of par unk = py_join '':'' (longest_common_prefix ?a ?b)"
    by (simp add: owner_of_def common_parts_loop_lcp)
  have c2: "common_parts_loop (zip ?a ?b) [] = longest_common_prefix ?a ?b"
    by (rule common_parts_loop_lcp)
  have c3: "prefix (longest_common_prefix ?a ?b) ?a"
    by (rule longest_common_prefix_prefix1)
  have c4: "prefix (longest_common_prefix ?a ?b) ?b"
    by (rule longest_common_prefix_prefix2)
  have c5: "\<forall>q. prefix q ?a \<and> prefix q ?b \<longrightarrow> prefix q (longest_common_prefix ?a ?b)"
    by (simp add: longest_common_prefix_max_prefix)
  have c6: "\<forall>i. i < length ?a \<and> i < length ?b \<and> ?a ! i \<noteq> ?b ! i \<longrightarrow>
        length (longest_common_prefix ?a ?b) \<le> i"
    by (simp add: lcp_stops_at_mismatch)
  have c7: "(par, unk) \<in> set (dict_items connections) \<longrightarrow>
        (\<exists>pars. dict_get (assign_parameters connections) (owner_of par unk) = Some pars
           \<and> par \<in> set pars)"
  proof
    assume m: "(par, unk) \<in> set (dict_items connections)"
    then have "par \<in> set (targets_of connections (owner_of par unk))"
      unfolding set_targets_of by blast
    moreover from this have "targets_of connections (owner_of par unk) \<noteq> []"
      by auto
    ultimately show "\<exists>pars. dict_get (assign_parameters connections) (owner_of par unk) = Some pars
           \<and> par \<in> set pars"
      by (simp add: dict_get_assign_parameters)
  qed
  have c8: "\<forall>ow pars p. dict_get (assign_parameters connections) ow = Some pars \<and> p \<in> set pars \<longrightarrow>
        (\<exists>u. (p, u) \<in> set (dict_items connections) \<and> owner_of p u = ow)"
  proof (intro allI impI)
    fix ow pars p
    assume a: "dict_get (assign_parameters connections) ow = Some pars \<and> p \<in> set pars"
    then have "pars = targets_of connections ow"
      by (simp add: dict_get_assign_parameters split: if_splits)
    with a have "p \<in> set (targets_of connections ow)" by simp
    then show "\<exists>u. (p, u) \<in> set (dict_items connections) \<and> owner_of p u = ow"
      unfolding set_targets_of by blast
  qed
  have e1: "owner_of ''G1:C1:x'' ''G1:C2:y'' = ''G1''"
    by (simp add: owner_of_def)
  have e2: "owner_of ''G1:C1:x'' ''G1:C1:z'' = ''G1:C1''"
    by (simp add: owner_of_def)
  have e3: "owner_of ''A:x'' ''B:y'' = ''''"
    by (simp add: owner_of_def)
  have e4: "owner_of ''A:B:X'' ''A:C:X'' = ''A''"
    by (simp add: owner_of_def)
  show ?thesis
    using c1 c2 c3 c4 c5 c6 c7 c8 e1 e2 e3 e4 by (intro conjI)
qed

theorem owner_is_longest_common_prefix_witness:
  "(''G1:C1:x'', ''G1:C2:y'') \<in> set (dict_items [(''G1:C1:x'', ''G1:C2:y''), (''G1:C3:z'', ''G1:C3:w'')])
   \<and> py_split CHR '':'' ''G1:C1:x'' = [''G1'', ''C1'', ''x'']
   \<and> py_split CHR '':'' ''G1:C2:y'' = [''G1'', ''C2'', ''y'']
   \<and> owner_of ''G1:C1:x'' ''G1:C2:y'' = ''G1''
   \<and> assign_parameters [(''G1:C1:x'', ''G1:C2:y''), (''G1:C3:z'', ''G1:C3:w'')]
       = [(''G1'', [''G1:C1:x'']), (''G1:C3'', [''G1:C3:z''])]
   \<and> (\<exists>pars. dict_get (assign_parameters [(''G1:C1:x'', ''G1:C2:y''), (''G1:C3:z'', ''G1:C3:w'')])
                (owner_of ''G1:C1:x'' ''G1:C2:y'') = Some pars
         \<and> ''G1:C1:x'' \<in> set pars)"
proof -
  have m: "(''G1:C1:x'', ''G1:C2:y'')
      \<in> set (dict_items [(''G1:C1:x'', ''G1:C2:y''), (''G1:C3:z'', ''G1:C3:w'')])"
    by (simp add: dict_items_def)
  have s1: "py_split CHR '':'' ''G1:C1:x'' = [''G1'', ''C1'', ''x'']" by simp
  have s2: "py_split CHR '':'' ''G1:C2:y'' = [''G1'', ''C2'', ''y'']" by simp
  have o: "owner_of ''G1:C1:x'' ''G1:C2:y'' = ''G1''"
    by (simp add: owner_of_def)
  have a: "assign_parameters [(''G1:C1:x'', ''G1:C2:y''), (''G1:C3:z'', ''G1:C3:w'')]
       = [(''G1'', [''G1:C1:x'']), (''G1:C3'', [''G1:C3:z''])]"
    by (simp add: assign_parameters_def dict_items_def setdefault_append_def dict_get_def
        owner_of_def)
  have e: "\<exists>pars. dict_get (assign_parameters [(''G1:C1:x'', ''G1:C2:y''), (''G1:C3:z'', ''G1:C3:w'')])
                (owner_of ''G1:C1:x'' ''G1:C2:y'') = Some pars
         \<and> ''G1:C1:x'' \<in> set pars"
    using m owner_is_longest_common_prefix
      [where par = "''G1:C1:x''" and unk = "''G1:C2:y''"
         and connections = "[(''G1:C1:x'', ''G1:C2:y''), (''G1:C3:z'', ''G1:C3:w'')]",
       THEN conjunct2, THEN conjunct2, THEN conjunct2, THEN conjunct2, THEN conjunct2,
       THEN conjunct2, THEN conjunct1]
    by (rule rev_mp)
  show ?thesis
    using m s1 s2 o a e by (intro conjI)
qed

text \<open>Claim C8. Two connection dictionaries with the same items, in whatever iteration
  order, get ownership assignments with the same membership from
  \<^verbatim>\<open>assign_parameters\<close>: the same set of owners, and under each owner the same set of
  targets. The order of the targets of an owner follows the iteration order and may
  differ.\<close>

theorem assign_parameters_order_independent:
  assumes "set (dict_items c1) = set (dict_items c2)"
  shows "set (dict_keys (assign_parameters c1)) = set (dict_keys (assign_parameters c2))
    \<and> (\<forall>ow. map_option set (dict_get (assign_parameters c1) ow)
              = map_option set (dict_get (assign_parameters c2) ow))"
proof -
  have k: "set (dict_keys (assign_parameters c1)) = set (dict_keys (assign_parameters c2))"
    using assms by (simp add: dict_keys_assign_parameters)
  have t: "set (targets_of c1 ow) = set (targets_of c2 ow)" for ow
    using assms by (simp add: set_targets_of)
  have "map_option set (dict_get (assign_parameters c1) ow)
              = map_option set (dict_get (assign_parameters c2) ow)" for ow
  proof -
    have "targets_of c1 ow = [] \<longleftrightarrow> targets_of c2 ow = []"
      using t[of ow] by (metis set_empty)
    then show ?thesis
      using t[of ow] by (simp add: dict_get_assign_parameters)
  qed
  with k show ?thesis by simp
qed

theorem assign_parameters_order_independent_witness:
  "set (dict_items [(''G1:C1:x'', ''G1:C2:y''), (''G1:C3:z'', ''G1:C2:y'')])
     = set (dict_items [(''G1:C3:z'', ''G1:C2:y''), (''G1:C1:x'', ''G1:C2:y'')])
   \<and> assign_parameters [(''G1:C1:x'', ''G1:C2:y''), (''G1:C3:z'', ''G1:C2:y'')]
       = [(''G1'', [''G1:C1:x'', ''G1:C3:z''])]
   \<and> assign_parameters [(''G1:C3:z'', ''G1:C2:y''), (''G1:C1:x'', ''G1:C2:y'')]
       = [(''G1'', [''G1:C3:z'', ''G1:C1:x''])]
   \<and> set (dict_keys (assign_parameters [(''G1:C1:x'', ''G1:C2:y''), (''G1:C3:z'', ''G1:C2:y'')]))
       = set (dict_keys (assign_parameters [(''G1:C3:z'', ''G1:C2:y''), (''G1:C1:x'', ''G1:C2:y'')]))
   \<and> map_option set
        (dict_get (assign_parameters [(''G1:C1:x'', ''G1:C2:y''), (''G1:C3:z'', ''G1:C2:y'')]) ''G1'')
       = map_option set
        (dict_get (assign_parameters [(''G1:C3:z'', ''G1:C2:y''), (''G1:C1:x'', ''G1:C2:y'')]) ''G1'')"
proof -
  have h: "set (dict_items [(''G1:C1:x'', ''G1:C2:y''), (''G1:C3:z'', ''G1:C2:y'')])
     = set (dict_items [(''G1:C3:z'', ''G1:C2:y''), (''G1:C1:x'', ''G1:C2:y'')])"
    by (simp add: dict_items_def insert_commute)
  have a1: "assign_parameters [(''G1:C1:x'', ''G1:C2:y''), (''G1:C3:z'', ''G1:C2:y'')]
       = [(''G1'', [''G1:C1:x'', ''G1:C3:z''])]"
    by (simp add: assign_parameters_def dict_items_def setdefault_append_def dict_get_def
        owner_of_def)
  have a2: "assign_parameters [(''G1:C3:z'', ''G1:C2:y''), (''G1:C1:x'', ''G1:C2:y'')]
       = [(''G1'', [''G1:C3:z'', ''G1:C1:x''])]"
    by (simp add: assign_parameters_def dict_items_def setdefault_append_def dict_get_def
        owner_of_def)
  note r = assign_parameters_order_independent [OF h]
  show ?thesis
    using h a1 a2 r[THEN conjunct1] r[THEN conjunct2, THEN spec, of "''G1''"] by (intro conjI)
qed

end
